theory Spec2Isabelle
  imports Complex_Main
begin

section \<open>Python values: errors and floats\<close>

text \<open>
  The exceptions that the modelled functions of \<^verbatim>\<open>gbstools/parser.py\<close> can raise.
  A function that can raise returns \<open>py_error + 'a\<close>, with \<open>Inl\<close> the exception.
\<close>

datatype py_error =
  KeyError | TypeError | ValueError | IndexError | ZeroDivisionError | OverflowError

text \<open>Sequencing: the first exception ends the computation.\<close>

definition err_bind :: "py_error + 'a \<Rightarrow> ('a \<Rightarrow> py_error + 'b) \<Rightarrow> py_error + 'b" where
  "err_bind m f = (case m of Inl e \<Rightarrow> Inl e | Inr x \<Rightarrow> f x)"

text \<open>
  A Python float that comes from outside (the EM solver, the tolerances): a finite value,
  an infinity or a NaN. A finite value is the real number itself. Rounding is not
  modelled, except where it decides between a value and an exception: the exponential and
  the division of the pedigree likelihood ratio underflow to zero, and the exponential
  overflows. The operations below follow IEEE 754 on the special values.
\<close>

datatype pyfloat = Fin real | PInf | NInf | NaN

fun pf_neg :: "pyfloat \<Rightarrow> pyfloat" where
  "pf_neg (Fin x) = Fin (- x)"
| "pf_neg PInf = NInf"
| "pf_neg NInf = PInf"
| "pf_neg NaN = NaN"

fun pf_add :: "pyfloat \<Rightarrow> pyfloat \<Rightarrow> pyfloat" where
  "pf_add (Fin x) (Fin y) = Fin (x + y)"
| "pf_add NaN _ = NaN"
| "pf_add _ NaN = NaN"
| "pf_add PInf NInf = NaN"
| "pf_add NInf PInf = NaN"
| "pf_add PInf _ = PInf"
| "pf_add NInf _ = NInf"
| "pf_add _ PInf = PInf"
| "pf_add _ NInf = NInf"

definition pf_sub :: "pyfloat \<Rightarrow> pyfloat \<Rightarrow> pyfloat" where
  "pf_sub a b = pf_add a (pf_neg b)"

text \<open>The sign of a float, for the products with an infinity: -1, 0 or 1.\<close>

fun pf_sign :: "pyfloat \<Rightarrow> int" where
  "pf_sign (Fin x) = (if x < 0 then - 1 else if x = 0 then 0 else 1)"
| "pf_sign PInf = 1"
| "pf_sign NInf = - 1"
| "pf_sign NaN = 0"

fun pf_mul :: "pyfloat \<Rightarrow> pyfloat \<Rightarrow> pyfloat" where
  "pf_mul (Fin x) (Fin y) = Fin (x * y)"
| "pf_mul NaN _ = NaN"
| "pf_mul _ NaN = NaN"
| "pf_mul a b =
     (if pf_sign a * pf_sign b = 0 then NaN
      else if pf_sign a * pf_sign b > 0 then PInf else NInf)"

text \<open>
  Underflow: the least positive double is \<open>2^-1074\<close>, and a result whose exact magnitude is at
  most half of it, \<open>2^-1075\<close>, is rounded to zero. Nothing is raised then. Any other result is
  taken as the exact real number.
\<close>

definition half_least_double :: real where
  "half_least_double = 1 / 2 ^ 1075"

text \<open>Overflow: an exact result of \<open>2^1024\<close> or more is beyond the doubles.\<close>

definition overflow_bound :: real where
  "overflow_bound = 2 ^ 1024"

definition underflow :: "real \<Rightarrow> real" where
  "underflow x = (if \<bar>x\<bar> \<le> half_least_double then 0 else x)"

text \<open>
  Division by a positive integer constant (the \<open>/ 9\<close> and \<open>/ 27\<close> of the source); the
  quotient of a tiny finite value underflows to zero.
\<close>

fun pf_div_const :: "pyfloat \<Rightarrow> real \<Rightarrow> pyfloat" where
  "pf_div_const (Fin x) k = Fin (underflow (x / k))"
| "pf_div_const a k = a"

fun pf_abs :: "pyfloat \<Rightarrow> pyfloat" where
  "pf_abs (Fin x) = Fin \<bar>x\<bar>"
| "pf_abs PInf = PInf"
| "pf_abs NInf = PInf"
| "pf_abs NaN = NaN"

text \<open>\<open>a > b\<close> on floats: every comparison with a NaN is false.\<close>

fun pf_gt :: "pyfloat \<Rightarrow> pyfloat \<Rightarrow> bool" where
  "pf_gt (Fin x) (Fin y) = (x > y)"
| "pf_gt NaN _ = False"
| "pf_gt _ NaN = False"
| "pf_gt PInf PInf = False"
| "pf_gt PInf _ = True"
| "pf_gt _ PInf = False"
| "pf_gt NInf _ = False"
| "pf_gt _ NInf = True"

text \<open>Python's \<open>max(a, b)\<close>: the first argument unless the second is greater.\<close>

definition pf_max :: "pyfloat \<Rightarrow> pyfloat \<Rightarrow> pyfloat" where
  "pf_max a b = (if pf_gt b a then b else a)"

text \<open>
  \<open>math.e ** x\<close> for a float \<open>x\<close>. On a finite \<open>x\<close> the result underflows to \<open>0.0\<close> (for \<open>x\<close>
  below about -745; \<open>math.e ** (-800.0)\<close> is \<open>0.0\<close>) and nothing is raised; a result of
  \<open>2^1024\<close> or more is beyond the doubles and raises an OverflowError. On the infinities and
  on a NaN nothing is raised.
\<close>

fun pf_exp :: "pyfloat \<Rightarrow> py_error + pyfloat" where
  "pf_exp (Fin x) =
     (if overflow_bound \<le> exp x then Inl OverflowError
      else Inr (Fin (underflow (exp x))))"
| "pf_exp PInf = Inr PInf"
| "pf_exp NInf = Inr (Fin 0)"
| "pf_exp NaN = Inr NaN"

text \<open>\<open>math.log(x)\<close>, the natural logarithm: a ValueError outside its domain.\<close>

fun pf_log :: "pyfloat \<Rightarrow> py_error + pyfloat" where
  "pf_log (Fin x) = (if x \<le> 0 then Inl ValueError else Inr (Fin (ln x)))"
| "pf_log PInf = Inr PInf"
| "pf_log NInf = Inl ValueError"
| "pf_log NaN = Inr NaN"

text \<open>
  Arithmetic where an operand may be \<open>None\<close>: \<open>None - x\<close> raises a TypeError.
\<close>

fun opt_sub :: "pyfloat option \<Rightarrow> pyfloat option \<Rightarrow> py_error + pyfloat" where
  "opt_sub (Some a) (Some b) = Inr (pf_sub a b)"
| "opt_sub _ _ = Inl TypeError"

text \<open>
  Python 2 orders \<open>None\<close> below every number, so \<open>a > b\<close> on optional floats is:
\<close>

fun opt_gt :: "pyfloat option \<Rightarrow> pyfloat option \<Rightarrow> bool" where
  "opt_gt (Some a) (Some b) = pf_gt a b"
| "opt_gt (Some a) None = True"
| "opt_gt None _ = False"

text \<open>
  \<open>max(xs)\<close> on a list: a ValueError on the empty list; otherwise the first item is
  kept until a later one is greater.
\<close>

fun py_max_from :: "pyfloat option \<Rightarrow> pyfloat option list \<Rightarrow> pyfloat option" where
  "py_max_from m [] = m"
| "py_max_from m (x # xs) = py_max_from (if opt_gt x m then x else m) xs"

fun py_max :: "pyfloat option list \<Rightarrow> py_error + pyfloat option" where
  "py_max [] = Inl ValueError"
| "py_max (x # xs) = Inr (py_max_from x xs)"

text \<open>\<open>max(xs, key=f)\<close>: the first item whose key is maximal.\<close>

fun py_max_key_from :: "('a \<Rightarrow> nat) \<Rightarrow> 'a \<Rightarrow> 'a list \<Rightarrow> 'a" where
  "py_max_key_from f m [] = m"
| "py_max_key_from f m (x # xs) = py_max_key_from f (if f x > f m then x else m) xs"

fun py_max_key :: "('a \<Rightarrow> nat) \<Rightarrow> 'a list \<Rightarrow> py_error + 'a" where
  "py_max_key f [] = Inl ValueError"
| "py_max_key f (x # xs) = Inr (py_max_key_from f x xs)"

text \<open>\<open>xs[i]\<close> for a non-negative index: an IndexError out of range.\<close>

definition py_index :: "'a list \<Rightarrow> nat \<Rightarrow> py_error + 'a" where
  "py_index xs i = (if i < length xs then Inr (xs ! i) else Inl IndexError)"

text \<open>\<open>int(x)\<close> on a float truncates towards zero.\<close>

definition py_int :: "real \<Rightarrow> int" where
  "py_int x = (if 0 \<le> x then \<lfloor>x\<rfloor> else \<lceil>x\<rceil>)"

text \<open>\<open>math.log(x, b)\<close> on finite floats: a ValueError unless \<open>x\<close> is positive.\<close>

definition math_log :: "real \<Rightarrow> real \<Rightarrow> py_error + real" where
  "math_log x b = (if x \<le> 0 then Inl ValueError else Inr (log b x))"


section \<open>The genotype-likelihood model\<close>

text \<open>
  \<^verbatim>\<open>CONFUSION_MATRIX\<close>, keyed by actual base, then by read base; the diagonal holds
  \<open>None\<close>. A lookup of a key that is not there raises a KeyError.
\<close>

definition CONFUSION_MATRIX :: "(string \<times> (string \<times> real option) list) list" where
  "CONFUSION_MATRIX =
    [(''A'', [(''A'', None), (''C'', Some 0.577), (''G'', Some 0.171), (''T'', Some 0.252)]),
     (''C'', [(''A'', Some 0.349), (''C'', None), (''G'', Some 0.113), (''T'', Some 0.539)]),
     (''G'', [(''A'', Some 0.319), (''C'', Some 0.051), (''G'', None), (''T'', Some 0.630)]),
     (''T'', [(''A'', Some 0.458), (''C'', Some 0.221), (''G'', Some 0.320), (''T'', None)])]"

definition confusion :: "string \<Rightarrow> string \<Rightarrow> py_error + real option" where
  "confusion actual rd =
     (case map_of CONFUSION_MATRIX actual of
        None \<Rightarrow> Inl KeyError
      | Some row \<Rightarrow> (case map_of row rd of None \<Rightarrow> Inl KeyError | Some v \<Rightarrow> Inr v))"

text \<open>
  A pileup read at the locus: the read's sequence and quality string, the position of
  the locus in them (\<open>qpos\<close>), and the mapping quality of the alignment.
\<close>

record pileup_read =
  r_seq :: string
  r_qual :: string
  r_qpos :: nat
  r_mapq :: int

text \<open>
  The body of the loop of \<^verbatim>\<open>_PileupData.calculate_pl\<close>: one read's update of the
  three running sums (hom-ref, het, hom-alt), in the order in which the source
  evaluates, so that the first exception of the source is the error returned.
  \<open>ref_terms\<close> are the three terms added when the read's base is the reference allele,
  \<open>alt_terms\<close> those added when it is the alternate allele; \<open>1 + pr\<close> with \<open>pr = None\<close>
  (the diagonal of the matrix) raises a TypeError.
\<close>

definition add3 :: "real \<times> real \<times> real \<Rightarrow> real \<times> real \<times> real \<Rightarrow> real \<times> real \<times> real" where
  "add3 lik t =
     (case lik of (homref_lik, het_lik, homnonref_lik) \<Rightarrow>
      case t of (l0, l1, l2) \<Rightarrow> (homref_lik + l0, het_lik + l1, homnonref_lik + l2))"


definition ref_terms :: "real \<Rightarrow> real option \<Rightarrow> py_error + real \<times> real \<times> real" where
  "ref_terms epsilon pr_alt =
     err_bind (math_log (1 - epsilon) 10) (\<lambda>l0.
     err_bind (case pr_alt of None \<Rightarrow> Inl TypeError | Some pa \<Rightarrow> Inr pa) (\<lambda>pa.
     err_bind (math_log ((1 - epsilon * (1 + pa)) / 2) 10) (\<lambda>l1.
     err_bind (math_log (epsilon * pa) 10) (\<lambda>l2.
     Inr (l0, l1, l2)))))"

definition alt_terms :: "real \<Rightarrow> real option \<Rightarrow> py_error + real \<times> real \<times> real" where
  "alt_terms epsilon pr_ref =
     err_bind (case pr_ref of None \<Rightarrow> Inl TypeError | Some pr \<Rightarrow> Inr pr) (\<lambda>pr.
     err_bind (math_log (epsilon * pr) 10) (\<lambda>l0.
     err_bind (math_log ((1 - epsilon * (1 + pr)) / 2) 10) (\<lambda>l1.
     err_bind (math_log (1 - epsilon) 10) (\<lambda>l2.
     Inr (l0, l1, l2)))))"

definition lik_update ::
  "string \<Rightarrow> string \<Rightarrow> int \<Rightarrow> real \<times> real \<times> real \<Rightarrow> pileup_read
     \<Rightarrow> py_error + real \<times> real \<times> real" where
  "lik_update ref alt offset lik rd =
     err_bind (py_index (r_seq rd) (r_qpos rd)) (\<lambda>b.
     err_bind (confusion ref alt) (\<lambda>pr_ref.
     err_bind (confusion alt ref) (\<lambda>pr_alt.
     err_bind (py_index (r_qual rd) (r_qpos rd)) (\<lambda>qual.
       let base = [b];
           epsilon = 10 powr (real_of_int (- (int (of_char qual) - offset)) / 10)
       in
       if base = ref then
         err_bind (ref_terms epsilon pr_alt) (\<lambda>t. Inr (add3 lik t))
       else if base = alt then
         err_bind (alt_terms epsilon pr_ref) (\<lambda>t. Inr (add3 lik t))
       else Inr lik))))"

text \<open>The loop over the reads: the three sums after the last read, or the first exception.\<close>

fun accumulate_lik ::
  "string \<Rightarrow> string \<Rightarrow> int \<Rightarrow> real \<times> real \<times> real \<Rightarrow> pileup_read list
     \<Rightarrow> py_error + real \<times> real \<times> real" where
  "accumulate_lik ref alt offset lik [] = Inr lik"
| "accumulate_lik ref alt offset lik (rd # rds) =
     (case lik_update ref alt offset lik rd of
        Inl e \<Rightarrow> Inl e
      | Inr lik' \<Rightarrow> accumulate_lik ref alt offset lik' rds)"

text \<open>
  The end of \<^verbatim>\<open>calculate_pl\<close>: the Phred-scaled triple when the sums add up to a
  negative number, \<open>None\<close> otherwise.
\<close>

definition normalize_lik :: "real \<times> real \<times> real \<Rightarrow> real list option" where
  "normalize_lik lik3 =
     (case lik3 of (homref_lik, het_lik, homnonref_lik) \<Rightarrow>
      let lik = [homref_lik, het_lik, homnonref_lik] in
      if sum_list lik < 0 then
        (let maxlik = max homref_lik (max het_lik homnonref_lik)
         in Some (map (\<lambda>l. - 10 * (l - maxlik)) lik))
      else None)"

definition calculate_pl ::
  "pileup_read list \<Rightarrow> string \<Rightarrow> string \<Rightarrow> int \<Rightarrow> py_error + real list option" where
  "calculate_pl reads ref alt offset =
     (case accumulate_lik ref alt offset (0, 0, 0) reads of
        Inl e \<Rightarrow> Inl e
      | Inr lik \<Rightarrow> Inr (normalize_lik lik))"

text \<open>
  \<^verbatim>\<open>_PileupData.__init__\<close>, for the entries \<open>DP\<close> and \<open>PL\<close> of its \<open>data\<close>. The pileup
  is \<open>None\<close> when it has no column (\<open>pileup.next()\<close> raises): then there are no reads.
  Any exception of \<open>calculate_pl\<close> is caught and leaves \<open>PL = None\<close>. The entries read
  from the tags of the reads (insert sizes, recognition sites) are not modelled.
\<close>

record pileup_data =
  data_DP :: int
  data_PL :: "real list option"

definition PileupData_init ::
  "pileup_read list option \<Rightarrow> string \<Rightarrow> string \<Rightarrow> nat \<Rightarrow> int \<Rightarrow> pileup_data" where
  "PileupData_init pileup ref alt maxcovg offset =
     (let reads = (case pileup of
                     None \<Rightarrow> []
                   | Some col \<Rightarrow> take maxcovg (filter (\<lambda>rd. r_mapq rd > 0) col))
      in \<lparr>data_DP = int (length reads),
          data_PL = (case calculate_pl reads ref alt offset of
                       Inl e \<Rightarrow> None
                     | Inr pl \<Rightarrow> pl)\<rparr>)"


section \<open>Sample call records\<close>

text \<open>
  \<^verbatim>\<open>CallData\<close>: one sample's data at one marker. The constructor takes \<open>DP\<close>, \<open>PL\<close> and
  \<open>NF\<close> as keyword arguments; here \<open>None\<close> stands for a keyword that is missing or whose
  value is \<open>None\<close> (the source treats both alike for \<open>DP\<close> and \<open>PL\<close>; a \<open>NF\<close> of \<open>None\<close>
  fails in \<open>float\<close> and falls back to 1.0). The insert sizes and recognition sites,
  stored as they are given, are not modelled.
\<close>

record call_data =
  sample :: string
  DP :: int
  PL :: "int list option"
  NF :: real
  is_father :: bool
  is_mother :: bool
  is_child :: bool

definition CallData_init ::
  "string \<Rightarrow> int option \<Rightarrow> real list option \<Rightarrow> real option \<Rightarrow> call_data" where
  "CallData_init s dp pl nf =
     \<lparr>sample = s,
      DP = (case dp of None \<Rightarrow> 0 | Some d \<Rightarrow> d),
      PL = (case pl of
              None \<Rightarrow> None
            | Some l \<Rightarrow> if l \<noteq> [] then Some (map py_int l) else None),
      NF = (case nf of None \<Rightarrow> 1 | Some f \<Rightarrow> f),
      is_father = False,
      is_mother = False,
      is_child = False\<rparr>"

text \<open>
  \<^verbatim>\<open>_Samfile.pileup\<close>: the call record of a sample whose reads come from a bam file
  (\<open>maxcovg\<close> and \<open>offset\<close> at their defaults, 250 and 33).
\<close>

definition Samfile_pileup ::
  "string \<Rightarrow> pileup_read list option \<Rightarrow> string \<Rightarrow> string \<Rightarrow> call_data" where
  "Samfile_pileup s pileup ref alt =
     (let d = PileupData_init pileup ref alt 250 33
      in CallData_init s (Some (data_DP d)) (data_PL d) None)"


section \<open>Unrelated-sample markers\<close>

text \<open>
  One snapshot of the EM parameters of a hypothesis: the dictionary with the keys
  \<open>phi\<close>, \<open>lambda\<close>, \<open>delta\<close>, \<open>fail\<close>, \<open>loglik\<close>, \<open>exp_phi\<close> and \<open>exp_delta\<close>. The last two
  are per-sample expectations that only the solver computes; \<^verbatim>\<open>parser.py\<close> stores them.
\<close>

record snapshot =
  phi :: "pyfloat list"
  lambda :: "pyfloat option"
  delta :: "pyfloat option"
  fail :: bool
  loglik :: "pyfloat option"
  exp_phi :: "(string \<times> pyfloat list) list option"
  exp_delta :: "(string \<times> pyfloat) list option"

text \<open>
  A \<^verbatim>\<open>Marker\<close>: the calls, the dispersion \<open>self.disp\<close>, the two histories
  \<open>self.param['H1']\<close> and \<open>self.param['H0']\<close>, and \<open>self.lik_ratio\<close>.
\<close>

record marker =
  calls :: "call_data list"
  disp :: "real option"
  param_H1 :: "snapshot list"
  param_H0 :: "snapshot list"
  lik_ratio :: "pyfloat option"

text \<open>The truth value of \<open>call.PL\<close>: a list that is not empty.\<close>

definition pl_truthy :: "int list option \<Rightarrow> bool" where
  "pl_truthy pl = (case pl of None \<Rightarrow> False | Some l \<Rightarrow> l \<noteq> [])"

text \<open>
  The allele frequency that seeds \<open>phi\<close>: \<open>min(0.9999, self.record.INFO['AF'][0])\<close>, or
  0.01 when that raises. The argument is \<open>None\<close> when \<open>INFO['AF']\<close> cannot be read or
  indexed; an entry of the list is \<open>None\<close> for a missing value (\<open>AF=.\<close>). Python 2 orders
  \<open>None\<close> below every number, so \<open>min(0.9999, None)\<close> is \<open>None\<close> and raises nothing; the
  \<open>1 - af\<close> that follows then raises a TypeError, out of the constructor.
\<close>

definition seed_af :: "real option list option \<Rightarrow> py_error + real" where
  "seed_af info_AF =
     (case info_AF of
        None \<Rightarrow> Inr 0.01
      | Some [] \<Rightarrow> Inr 0.01
      | Some (None # _) \<Rightarrow> Inl TypeError
      | Some (Some x # _) \<Rightarrow> Inr (min 0.9999 x))"

text \<open>The seeds \<open>(phi0, phi0_null)\<close> of \<^verbatim>\<open>Marker.__init__\<close>.\<close>

definition seed_phi ::
  "real option list option \<Rightarrow> call_data list \<Rightarrow> py_error + real list \<times> real list" where
  "seed_phi info_AF cs =
     (let dfreq = 0.01;
          dp_mode = (map PL (filter (\<lambda>call. pl_truthy (PL call)) cs) = [])
      in
      if dp_mode then Inr ([1 - dfreq, 0, dfreq], [1, 0, 0])
      else
        err_bind (seed_af info_AF) (\<lambda>af.
          Inr ([(1 - af) * (1 - dfreq), af * (1 - dfreq), dfreq], [1 - af, af, 0])))"

text \<open>
  The coverage seeds \<open>(lambda0, self.disp, delta0, fail)\<close>, shared by \<^verbatim>\<open>Marker.__init__\<close>
  (which uses all four) and \<^verbatim>\<open>PedMarker.__init__\<close> (which has no \<open>delta0\<close>).
\<close>

definition seed_coverage ::
  "call_data list \<Rightarrow> real \<Rightarrow> real
     \<Rightarrow> py_error + pyfloat option \<times> real option \<times> pyfloat option \<times> bool" where
  "seed_coverage cs slope intercept =
     (let dp = sum_list (map DP cs);
          missing = int (length (filter (\<lambda>call. DP call = 0) cs))
      in
      if dp > 0 then
        (if int (length cs) - missing = 0 then Inl ZeroDivisionError
         else
           let lambda0 = real_of_int dp / real_of_int (int (length cs) - missing)
           in Inr (Some (Fin lambda0),
                   Some (slope * lambda0 + intercept),
                   Some (Fin (max (real_of_int missing / real (length cs)) 0.01)),
                   False))
      else Inr (None, None, None, True))"

definition Marker_init ::
  "real option list option \<Rightarrow> call_data list \<Rightarrow> real \<Rightarrow> real \<Rightarrow> py_error + marker" where
  "Marker_init info_AF cs slope intercept =
     err_bind (seed_phi info_AF cs) (\<lambda>(phi0, phi0_null).
     err_bind (seed_coverage cs slope intercept) (\<lambda>(lambda0, d, delta0, fl).
       Inr \<lparr>calls = cs,
            disp = d,
            param_H1 = [\<lparr>phi = map Fin phi0, lambda = lambda0, delta = delta0, fail = fl,
                         loglik = None, exp_phi = None, exp_delta = None\<rparr>],
            param_H0 = [\<lparr>phi = map Fin phi0_null, lambda = lambda0, delta = delta0,
                         fail = fl, loglik = None, exp_phi = None, exp_delta = None\<rparr>],
            lik_ratio = None\<rparr>))"

text \<open>
  \<^verbatim>\<open>Marker.check_convergence\<close>. \<open>param[-1]\<close> on an empty history is an IndexError, a
  \<open>phi\<close> shorter than three entries is an IndexError, and a \<open>lambda\<close> or \<open>delta\<close> that is
  \<open>None\<close> is a TypeError in the subtraction.
\<close>

definition check_convergence ::
  "snapshot list \<Rightarrow> pyfloat \<Rightarrow> pyfloat \<Rightarrow> pyfloat \<Rightarrow> py_error + bool" where
  "check_convergence param phi_tol lamb_tol delta_tol =
     (if param = [] then Inl IndexError
      else if fail (last param) then Inr True
      else if length param > 1 then
        (let p1 = last param; p2 = param ! (length param - 2) in
         err_bind (py_index (phi p1) 1) (\<lambda>a1.
         err_bind (py_index (phi p2) 1) (\<lambda>b1.
         err_bind (py_index (phi p1) 2) (\<lambda>a2.
         err_bind (py_index (phi p2) 2) (\<lambda>b2.
         err_bind (opt_sub (lambda p1) (lambda p2)) (\<lambda>ld.
         err_bind (opt_sub (delta p1) (delta p2)) (\<lambda>dd.
           let phi_diff = pf_max (pf_abs (pf_sub a1 b1)) (pf_abs (pf_sub a2 b2));
               lamb_diff = pf_abs ld;
               delta_diff = pf_abs dd
           in
           if pf_gt phi_diff phi_tol \<or> pf_gt lamb_diff lamb_tol \<or> pf_gt delta_diff delta_tol
           then Inr False
           else Inr True)))))))
      else Inr False)"

text \<open>
  The single-step solver \<open>em.update\<close> is not part of \<^verbatim>\<open>parser.py\<close>: it is a parameter,
  a function of the last snapshot, the calls and the dispersion that returns the new
  snapshot or raises.
\<close>

type_synonym em_solver = "snapshot \<Rightarrow> call_data list \<Rightarrow> real option \<Rightarrow> py_error + snapshot"

text \<open>
  \<^verbatim>\<open>Marker.update_param\<close>: any exception of the solver is caught, and the new snapshot is
  then a copy of the last one with \<open>fail\<close> set. On an empty history \<open>param[-1]\<close> raises
  in the handler too.
\<close>

definition update_param :: "em_solver \<Rightarrow> marker \<Rightarrow> snapshot list \<Rightarrow> py_error + snapshot" where
  "update_param em_update m param =
     (if param = [] then Inl IndexError
      else
        (case em_update (last param) (calls m) (disp m) of
           Inr param_new \<Rightarrow> Inr param_new
         | Inl e \<Rightarrow> Inr ((last param)\<lparr>fail := True\<rparr>)))"

text \<open>
  \<^verbatim>\<open>Marker.likelihood_ratio\<close>: every exception is caught and gives \<open>None\<close>.
\<close>

definition likelihood_ratio :: "marker \<Rightarrow> pyfloat option" where
  "likelihood_ratio m =
     (if param_H0 m = [] \<or> param_H1 m = [] then None
      else
        (case opt_sub (loglik (last (param_H0 m))) (loglik (last (param_H1 m))) of
           Inl e \<Rightarrow> None
         | Inr d \<Rightarrow> Some (pf_mul (Fin (- 2)) d)))"

text \<open>
  Modelled from the spec: the EM driver loop of a track, which is not in \<^verbatim>\<open>parser.py\<close>
  (section 4.2: each iteration invokes the solver with the last snapshot and appends the
  returned snapshot to the history; a track runs until it is terminal for the
  convergence check). One iteration of it is a step from a history to the next, taken
  only when the check returns false; \<open>tol\<close> are the three tolerances.
\<close>

inductive em_step ::
  "em_solver \<Rightarrow> marker \<Rightarrow> pyfloat \<times> pyfloat \<times> pyfloat \<Rightarrow> snapshot list \<Rightarrow> snapshot list \<Rightarrow> bool"
  for em_update :: em_solver and m :: marker and tol :: "pyfloat \<times> pyfloat \<times> pyfloat" where
  iterate:
    "check_convergence param (fst tol) (fst (snd tol)) (snd (snd tol)) = Inr False \<Longrightarrow>
     update_param em_update m param = Inr param_new \<Longrightarrow>
     em_step em_update m tol param (param @ [param_new])"

text \<open>
  Modelled from the spec: the run of the driver loop on a track, any number of
  iterations (the loop itself is not in \<^verbatim>\<open>parser.py\<close>): \<open>em_run\<close> relates a history to every
  history that the loop reaches from it.
\<close>

definition em_run ::
  "em_solver \<Rightarrow> marker \<Rightarrow> pyfloat \<times> pyfloat \<times> pyfloat \<Rightarrow> snapshot list \<Rightarrow> snapshot list \<Rightarrow> bool" where
  "em_run em_update m tol = (em_step em_update m tol)\<^sup>*\<^sup>*"


section \<open>Pedigree markers\<close>

text \<open>
  Modelled from the spec: \<open>em.trio_gt\<close>, the joint parental genotypes, which is not in
  \<^verbatim>\<open>parser.py\<close> (section 3: a genotype is a triple of allele counts (ref, alt, dropout)
  that sums to 2; there are six of them, and the joint space is the 36 pairs of a
  father's and a mother's genotype).
\<close>

type_synonym genotype = "nat \<times> nat \<times> nat"

text \<open>
  Modelled from the spec: a member of \<open>em.trio_gt\<close> (not in \<^verbatim>\<open>parser.py\<close>), with the two
  fields \<open>father\<close> and \<open>mother\<close> that \<^verbatim>\<open>parser.py\<close> reads from it.
\<close>

record trio_genotype =
  gt_father :: genotype
  gt_mother :: genotype

text \<open>
  Modelled from the spec: the six genotypes of an individual (the module \<open>em\<close> that
  defines them is not in the sources), in the order of section 3.
\<close>

definition genotypes :: "genotype list" where
  "genotypes = [(2, 0, 0), (1, 1, 0), (1, 0, 1), (0, 2, 0), (0, 1, 1), (0, 0, 2)]"

text \<open>
  Modelled from the spec: \<open>em.trio_gt\<close> itself (not in \<^verbatim>\<open>parser.py\<close>), the 36 pairs of a
  father's and a mother's genotype.
\<close>

definition trio_gt :: "trio_genotype list" where
  "trio_gt = concat (map (\<lambda>f. map (\<lambda>m. \<lparr>gt_father = f, gt_mother = m\<rparr>) genotypes) genotypes)"

text \<open>\<open>gt[2]\<close>, the dropout count of a genotype.\<close>

definition dropout_count :: "genotype \<Rightarrow> nat" where
  "dropout_count g = snd (snd g)"

text \<open>The snapshots of a pedigree track: the keys \<open>lambda\<close>, \<open>fail\<close> and \<open>loglik\<close>.\<close>

record ped_snapshot =
  ped_lambda :: "pyfloat option"
  ped_fail :: bool
  ped_loglik :: "pyfloat option"

text \<open>The named tuple \<open>Family\<close> of \<^verbatim>\<open>Reader.parse_ped\<close>.\<close>

record family =
  father :: string
  mother :: string
  children :: "string list"

text \<open>
  A \<^verbatim>\<open>PedMarker\<close>; \<open>self.param\<close> is a dictionary from the joint genotypes to the histories,
  here a list of pairs with distinct keys.
\<close>

record ped_marker =
  ped_calls :: "call_data list"
  ped_disp :: "real option"
  ped_family :: family
  ped_param :: "(trio_genotype \<times> ped_snapshot list) list"
  ped_lik_ratio :: "pyfloat option"

text \<open>\<open>d[k] = v\<close> on a dictionary kept as a list of pairs: a new key goes last.\<close>

fun dict_set :: "('k \<times> 'v) list \<Rightarrow> 'k \<Rightarrow> 'v \<Rightarrow> ('k \<times> 'v) list" where
  "dict_set [] k v = [(k, v)]"
| "dict_set ((k', v') # d) k v =
     (if k' = k then (k, v) # d else (k', v') # dict_set d k v)"

definition PedMarker_init ::
  "call_data list \<Rightarrow> real \<Rightarrow> real \<Rightarrow> family \<Rightarrow> py_error + ped_marker" where
  "PedMarker_init cs slope intercept fam =
     err_bind (seed_coverage cs slope intercept) (\<lambda>(lambda0, d, delta0, fl).
       Inr \<lparr>ped_calls = cs,
            ped_disp = d,
            ped_family = fam,
            ped_param =
              fold (\<lambda>gt prm. dict_set prm gt
                      [\<lparr>ped_lambda = lambda0, ped_fail = fl, ped_loglik = None\<rparr>])
                trio_gt [],
            ped_lik_ratio = None\<rparr>)"

text \<open>\<^verbatim>\<open>PedMarker.check_convergence\<close>.\<close>

definition ped_check_convergence :: "ped_snapshot list \<Rightarrow> pyfloat \<Rightarrow> py_error + bool" where
  "ped_check_convergence param lamb_tol =
     (if param = [] then Inl IndexError
      else if ped_fail (last param) then Inr True
      else if length param > 1 then
        err_bind (opt_sub (ped_lambda (last param)) (ped_lambda (param ! (length param - 2))))
          (\<lambda>ld. if pf_gt (pf_abs ld) lamb_tol then Inr False else Inr True)
      else Inr False)"

text \<open>The pedigree solver \<open>em.ped_update\<close>, a parameter as \<open>em.update\<close> is.\<close>

type_synonym ped_solver =
  "ped_snapshot \<Rightarrow> call_data list \<Rightarrow> real option \<Rightarrow> trio_genotype \<Rightarrow> py_error + ped_snapshot"

text \<open>
  \<^verbatim>\<open>PedMarker.update_param\<close>: the solver's exceptions are caught as in the unrelated
  mode; then a log-likelihood equal to \<open>-inf\<close> sets \<open>fail\<close>.
\<close>

definition ped_update_param ::
  "ped_solver \<Rightarrow> ped_marker \<Rightarrow> ped_snapshot list \<Rightarrow> trio_genotype \<Rightarrow> py_error + ped_snapshot" where
  "ped_update_param ped_update m param parental_gt =
     (if param = [] then Inl IndexError
      else
        (let param_new =
               (case ped_update (last param) (ped_calls m) (ped_disp m) parental_gt of
                  Inr p \<Rightarrow> p
                | Inl e \<Rightarrow> (last param)\<lparr>ped_fail := True\<rparr>)
         in Inr (if ped_loglik param_new = Some NInf then param_new\<lparr>ped_fail := True\<rparr>
                 else param_new)))"

text \<open>
  \<^verbatim>\<open>PedMarker.likelihood_ratio\<close>. First the list of the final log-likelihoods of all
  tracks and its maximum, then the loop that adds each track's term
  \<open>math.e**(loglik - maxlik)\<close>, divided by 9 or 27, to the null sum \<open>h0_lik\<close> or to the
  alternative sum \<open>h1_lik\<close>, then the ratio. Nothing is caught here: a \<open>loglik\<close> that is
  \<open>None\<close> raises a TypeError in the subtraction, and a sum that is \<open>0.0\<close> raises a
  ValueError in \<open>math.log\<close>.
\<close>

fun final_logliks :: "ped_snapshot list list \<Rightarrow> py_error + pyfloat option list" where
  "final_logliks [] = Inr []"
| "final_logliks (h # hs) =
     (if h = [] then Inl IndexError
      else (case final_logliks hs of
              Inl e \<Rightarrow> Inl e
            | Inr ls \<Rightarrow> Inr (ped_loglik (last h) # ls)))"

fun ped_lik_sums ::
  "(trio_genotype \<times> ped_snapshot list) list \<Rightarrow> pyfloat option \<Rightarrow> pyfloat \<times> pyfloat
     \<Rightarrow> py_error + pyfloat \<times> pyfloat" where
  "ped_lik_sums [] maxlik acc = Inr acc"
| "ped_lik_sums ((geno, hist) # rest) maxlik (h0_lik, h1_lik) =
     (if hist = [] then Inl IndexError
      else
        (case err_bind (opt_sub (ped_loglik (last hist)) maxlik) pf_exp of
           Inl e \<Rightarrow> Inl e
         | Inr t \<Rightarrow>
             (if dropout_count (gt_father geno) = 0 \<and> dropout_count (gt_mother geno) = 0
              then ped_lik_sums rest maxlik (pf_add h0_lik (pf_div_const t 9), h1_lik)
              else ped_lik_sums rest maxlik (h0_lik, pf_add h1_lik (pf_div_const t 27)))))"

definition ped_likelihood_ratio :: "ped_marker \<Rightarrow> py_error + pyfloat" where
  "ped_likelihood_ratio m =
     err_bind (final_logliks (map snd (ped_param m))) (\<lambda>lls.
     err_bind (py_max lls) (\<lambda>maxlik.
     err_bind (ped_lik_sums (ped_param m) maxlik (Fin 0, Fin 0)) (\<lambda>(h0_lik, h1_lik).
     err_bind (pf_log h0_lik) (\<lambda>l0.
     err_bind (pf_log h1_lik) (\<lambda>l1.
       Inr (pf_mul (Fin (- 2)) (pf_sub l0 l1)))))))"


section \<open>The pedigree file\<close>

text \<open>
  \<^verbatim>\<open>Reader.parse_ped\<close>. A line of the file is the list of its fields
  (\<open>line.strip().split()\<close>); unpacking anything but six fields is a ValueError. The
  dictionary \<open>offspring\<close> is a list of pairs in the order of insertion; its key
  \<open>(father, mother)\<close> is the two-element list \<open>[father, mother]\<close>, so that \<open>len(x)\<close> of the
  source is \<open>length\<close>.
\<close>

fun dict_append :: "('k \<times> 'v list) list \<Rightarrow> 'k \<Rightarrow> 'v \<Rightarrow> ('k \<times> 'v list) list" where
  "dict_append [] k v = [(k, [v])]"
| "dict_append ((k', vs) # d) k v =
     (if k' = k then (k', vs @ [v]) # d else (k', vs) # dict_append d k v)"

fun ped_offspring ::
  "string list \<Rightarrow> string list list \<Rightarrow> (string list \<times> string list) list
     \<Rightarrow> py_error + (string list \<times> string list) list" where
  "ped_offspring samples [] offspring = Inr offspring"
| "ped_offspring samples (line # rest) offspring =
     (if length line \<noteq> 6 then Inl ValueError
      else
        (let indiv_id = line ! 1; fa = line ! 2; mo = line ! 3 in
         ped_offspring samples rest
           (if indiv_id \<in> set samples then dict_append offspring [fa, mo] indiv_id
            else offspring)))"

text \<open>
  Python 2 iterates over the keys of a dictionary in an order that the hashes of the keys
  fix, not the values stored: \<open>iter_order\<close> gives that order from the keys in the order
  of insertion (the identity for a dictionary that keeps the insertion order).
\<close>

definition parse_ped ::
  "(string list list \<Rightarrow> string list list) \<Rightarrow> string list \<Rightarrow> string list list
     \<Rightarrow> py_error + family" where
  "parse_ped iter_order samples lines =
     err_bind (ped_offspring samples lines []) (\<lambda>offspring.
     err_bind (py_max_key length (iter_order (map fst offspring))) (\<lambda>key.
       (case key of
          [fa, mo] \<Rightarrow>
            (case map_of offspring key of
               None \<Rightarrow> Inl KeyError
             | Some chn \<Rightarrow> Inr \<lparr>father = fa, mother = mo, children = chn\<rparr>)
        | _ \<Rightarrow> Inl ValueError)))"


section \<open>Notions used to state the properties\<close>

text \<open>
  A read is informative for the alleles \<open>ref\<close> and \<open>alt\<close> when its base at the locus is
  one of the two: these are the reads that add to the three sums of \<open>calculate_pl\<close>.
\<close>

definition informative :: "string \<Rightarrow> string \<Rightarrow> pileup_read \<Rightarrow> bool" where
  "informative ref alt rd =
     (case py_index (r_seq rd) (r_qpos rd) of
        Inl e \<Rightarrow> False
      | Inr b \<Rightarrow> [b] = ref \<or> [b] = alt)"


text \<open>
  The pedigree likelihood ratio as the spec words it (section 4.3), over the final
  log-likelihoods of the tracks, given as pairs of a joint genotype and a real number:
  \<open>maxLL\<close> is their maximum, \<open>H0\<close> sums \<open>exp(LL - maxLL) / 9\<close> over the genotypes in which
  both parents have dropout count 0 (the third allele count of a genotype), \<open>H1\<close> sums
  \<open>exp(LL - maxLL) / 27\<close> over the others, and the ratio is \<open>-2 * (ln H0 - ln H1)\<close>.
\<close>

definition is_null_gt :: "trio_genotype \<Rightarrow> bool" where
  "is_null_gt g =
     (case gt_father g of
        (f_ref, f_alt, f_dropout) \<Rightarrow>
          (case gt_mother g of (m_ref, m_alt, m_dropout) \<Rightarrow> f_dropout = 0 \<and> m_dropout = 0))"

definition spec_maxLL :: "(trio_genotype \<times> real) list \<Rightarrow> real" where
  "spec_maxLL lls = Max (snd ` set lls)"




text \<open>
  The final log-likelihoods of the tracks of a pedigree marker, each with its genotype,
  and those of them that are finite, as real numbers.
\<close>

definition final_values ::
  "(trio_genotype \<times> ped_snapshot list) list \<Rightarrow> (trio_genotype \<times> pyfloat option) list" where
  "final_values prm = map (\<lambda>(g, h). (g, ped_loglik (last h))) prm"

definition finite_values ::
  "(trio_genotype \<times> pyfloat option) list \<Rightarrow> (trio_genotype \<times> real) list" where
  "finite_values fs =
     concat (map (\<lambda>(g, v). case v of Some (Fin r) \<Rightarrow> [(g, r)] | _ \<Rightarrow> []) fs)"

text \<open>
  A final log-likelihood is a number when it is finite or negative infinity, the two
  values that a log-likelihood takes; the other possible value of the field is \<open>None\<close>,
  before the first solver call.
\<close>

fun is_number :: "pyfloat option \<Rightarrow> bool" where
  "is_number (Some (Fin r)) = True"
| "is_number (Some NInf) = True"
| "is_number v = False"





section \<open>Properties of the genotype-likelihood model\<close>

lemma eps_q53: "(10::real) powr - 2 = 1 / 100"
  by (simp add: powr_minus_divide)

lemma confusion_A_C: "confusion ''A'' ''C'' = Inr (Some 0.577)"
  by (simp add: confusion_def CONFUSION_MATRIX_def)

lemma confusion_C_A: "confusion ''C'' ''A'' = Inr (Some 0.349)"
  by (simp add: confusion_def CONFUSION_MATRIX_def)

text \<open>
  One read that shows the reference allele \<open>A\<close> with the quality byte 53, for
  \<open>ref = A\<close> and \<open>alt = C\<close>: \<open>pr_alt\<close> is \<open>CONFUSION_MATRIX['C']['A'] = 0.349\<close>.
\<close>

lemma lik_single_ref_read_A_C:
  assumes "r_qpos rd < length (r_seq rd)" and "r_qpos rd < length (r_qual rd)"
    and "r_seq rd ! r_qpos rd = CHR ''A''"
    and "of_char (r_qual rd ! r_qpos rd) = (53::nat)"
  shows "accumulate_lik ''A'' ''C'' 33 (0, 0, 0) [rd] =
     Inr (log 10 0.99, log 10 ((1 - 0.01 * (1 + 0.349)) / 2), log 10 (0.01 * 0.349))"
proof -
  have "lik_update ''A'' ''C'' 33 (0, 0, 0) rd =
     err_bind (ref_terms (1 / 100) (Some 0.349)) (\<lambda>t. Inr (add3 (0, 0, 0) t))"
    using assms
    by (simp add: lik_update_def py_index_def err_bind_def confusion_A_C confusion_C_A eps_q53)
  then show ?thesis
    by (simp add: ref_terms_def math_log_def err_bind_def add3_def)
qed

text \<open>
  C1 (as the code has it): for a single aligned read whose observed base is the reference
  allele, with quality byte value 53 (so epsilon = 1/100), \<open>ref = A\<close> and \<open>alt = C\<close>, the
  accumulation gives the hom-ref term \<open>log10(0.99)\<close>, the het term
  \<open>log10((1 - 0.01 * (1 + 0.349)) / 2)\<close> and the hom-alt term \<open>log10(0.01 * 0.349)\<close>:
  the miscall rate of the last two is \<open>pr_alt = CONFUSION_MATRIX[alt][ref] = 0.349\<close>, not
  \<open>CONFUSION_MATRIX[ref][alt] = 0.577\<close>.
\<close>

theorem C1_single_ref_read_terms:
  assumes "r_qpos rd < length (r_seq rd)" and "r_qpos rd < length (r_qual rd)"
    and "r_seq rd ! r_qpos rd = CHR ''A''"
    and "of_char (r_qual rd ! r_qpos rd) = (53::nat)"
  shows "accumulate_lik ''A'' ''C'' 33 (0, 0, 0) [rd] =
     Inr (log 10 0.99, log 10 ((1 - 0.01 * (1 + 0.349)) / 2), log 10 (0.01 * 0.349))"
  using assms by (rule lik_single_ref_read_A_C)

theorem C1_single_ref_read_terms_witness:
  "accumulate_lik ''A'' ''C'' 33 (0, 0, 0)
     [\<lparr>r_seq = ''A'', r_qual = ''5'', r_qpos = 0, r_mapq = 60\<rparr>] =
     Inr (log 10 0.99, log 10 ((1 - 0.01 * (1 + 0.349)) / 2), log 10 (0.01 * 0.349))"
  using C1_single_ref_read_terms
    [of "\<lparr>r_seq = ''A'', r_qual = ''5'', r_qpos = 0, r_mapq = 60\<rparr>"]
  by simp

text \<open>
  C1 as the spec states it, with 0.577 in the het and hom-alt terms, is not what the
  accumulation returns for that read.
\<close>

theorem C1_spec_terms_counterexample:
  "accumulate_lik ''A'' ''C'' 33 (0, 0, 0)
     [\<lparr>r_seq = ''A'', r_qual = ''5'', r_qpos = 0, r_mapq = 60\<rparr>] \<noteq>
     Inr (log 10 0.99, log 10 ((1 - 0.01 * (1 + 0.577)) / 2), log 10 (0.01 * 0.577))"
proof -
  have "accumulate_lik ''A'' ''C'' 33 (0, 0, 0)
     [\<lparr>r_seq = ''A'', r_qual = ''5'', r_qpos = 0, r_mapq = 60\<rparr>] =
     Inr (log 10 0.99, log 10 ((1 - 0.01 * (1 + 0.349)) / 2), log 10 (0.01 * 0.349))"
    by (rule lik_single_ref_read_A_C) simp_all
  moreover have "log 10 (0.01 * 0.349) \<noteq> log 10 (0.01 * (0.577::real))"
  proof -
    have "log 10 (0.01 * 0.349) < log 10 (0.01 * (0.577::real))"
      by (subst log_less_cancel_iff) simp_all
    then show ?thesis by (rule less_imp_neq)
  qed
  ultimately show ?thesis by simp
qed

lemma normalize_lik_zero: "normalize_lik (0, 0, 0) = None"
  by (simp add: normalize_lik_def)

text \<open>
  A read that is not informative leaves the three sums as they are, unless it raises.
\<close>

lemma lik_update_uninformative:
  assumes "\<not> informative ref alt rd"
  shows "lik_update ref alt offset lik rd = Inr lik
         \<or> (\<exists>e. lik_update ref alt offset lik rd = Inl e)"
  using assms
  by (auto simp add: lik_update_def informative_def err_bind_def Let_def split: sum.splits)

lemma accumulate_uninformative:
  assumes "\<forall>rd\<in>set reads. \<not> informative ref alt rd"
  shows "accumulate_lik ref alt offset lik reads = Inr lik
         \<or> (\<exists>e. accumulate_lik ref alt offset lik reads = Inl e)"
  using assms
proof (induction reads)
  case Nil
  then show ?case by simp
next
  case (Cons rd reads)
  then have "\<not> informative ref alt rd" by simp
  from lik_update_uninformative [OF this, of offset lik]
  show ?case using Cons by auto
qed

lemma calculate_pl_uninformative:
  assumes "\<forall>rd\<in>set reads. \<not> informative ref alt rd"
  shows "calculate_pl reads ref alt offset = Inr None
         \<or> (\<exists>e. calculate_pl reads ref alt offset = Inl e)"
  using accumulate_uninformative [OF assms, of offset "(0, 0, 0)"]
  by (auto simp add: calculate_pl_def normalize_lik_zero)

lemma PileupData_uninformative:
  assumes "\<forall>rd\<in>set reads. \<not> informative ref alt rd"
  shows "data_PL (PileupData_init (Some reads) ref alt maxcovg offset) = None"
proof -
  let ?rs = "take maxcovg (filter (\<lambda>rd. r_mapq rd > 0) reads)"
  have "\<forall>rd\<in>set ?rs. \<not> informative ref alt rd"
    using assms by (auto dest: in_set_takeD)
  from calculate_pl_uninformative [OF this, of offset]
  show ?thesis by (auto simp add: PileupData_init_def)
qed

lemma PileupData_no_reads:
  assumes "data_DP (PileupData_init pileup ref alt maxcovg offset) = 0"
  shows "data_PL (PileupData_init pileup ref alt maxcovg offset) = None"
proof -
  define reads where
    "reads = (case pileup of None \<Rightarrow> []
              | Some col \<Rightarrow> take maxcovg (filter (\<lambda>rd. r_mapq rd > 0) col))"
  have init: "PileupData_init pileup ref alt maxcovg offset =
      \<lparr>data_DP = int (length reads),
       data_PL = (case calculate_pl reads ref alt offset of Inl e \<Rightarrow> None | Inr pl \<Rightarrow> pl)\<rparr>"
    by (simp add: PileupData_init_def reads_def Let_def)
  from assms have "reads = []" by (simp add: init)
  then show ?thesis
    by (simp add: init calculate_pl_def normalize_lik_zero)
qed

lemma CallData_init_None: "PL (CallData_init s dp None nf) = None"
  by (simp add: CallData_init_def)

lemma CallData_init_DP: "DP (CallData_init s (Some d) pl nf) = d"
  by (simp add: CallData_init_def)

text \<open>
  C9 (as the code has it): a call record computed from a pileup with depth 0 has no
  genotype likelihoods, and the pileup-based computation yields no triple whenever no
  informative read contributed: \<open>calculate_pl\<close> returns \<open>None\<close> or raises, and the
  constructor of the pileup data turns both into \<open>PL = None\<close>.
\<close>

theorem C9_pileup_without_informative_read:
  "(DP (Samfile_pileup s pileup ref alt) = 0 \<longrightarrow> PL (Samfile_pileup s pileup ref alt) = None)
   \<and> ((\<forall>rd\<in>set reads. \<not> informative ref alt rd) \<longrightarrow>
        (calculate_pl reads ref alt offset = Inr None
           \<or> (\<exists>e. calculate_pl reads ref alt offset = Inl e))
        \<and> data_PL (PileupData_init (Some reads) ref alt maxcovg offset) = None
        \<and> PL (Samfile_pileup s (Some reads) ref alt) = None)"
proof (intro conjI impI)
  assume "DP (Samfile_pileup s pileup ref alt) = 0"
  then have "data_DP (PileupData_init pileup ref alt 250 33) = 0"
    by (simp add: Samfile_pileup_def Let_def CallData_init_DP)
  from PileupData_no_reads [OF this]
  show "PL (Samfile_pileup s pileup ref alt) = None"
    by (simp add: Samfile_pileup_def Let_def CallData_init_None)
next
  assume a: "\<forall>rd\<in>set reads. \<not> informative ref alt rd"
  show "calculate_pl reads ref alt offset = Inr None
           \<or> (\<exists>e. calculate_pl reads ref alt offset = Inl e)"
    by (rule calculate_pl_uninformative [OF a])
  show "data_PL (PileupData_init (Some reads) ref alt maxcovg offset) = None"
    by (rule PileupData_uninformative [OF a])
  from PileupData_uninformative [OF a, of 250 33]
  show "PL (Samfile_pileup s (Some reads) ref alt) = None"
    by (simp add: Samfile_pileup_def Let_def CallData_init_None)
qed

theorem C9_pileup_without_informative_read_witness:
  "DP (Samfile_pileup ''s1'' None ''A'' ''C'') = 0
   \<and> PL (Samfile_pileup ''s1'' None ''A'' ''C'') = None
   \<and> \<not> informative ''A'' ''C'' \<lparr>r_seq = ''G'', r_qual = ''5'', r_qpos = 0, r_mapq = 60\<rparr>
   \<and> data_PL (PileupData_init
        (Some [\<lparr>r_seq = ''G'', r_qual = ''5'', r_qpos = 0, r_mapq = 60\<rparr>]) ''A'' ''C'' 250 33) = None
   \<and> DP (Samfile_pileup ''s1''
        (Some [\<lparr>r_seq = ''G'', r_qual = ''5'', r_qpos = 0, r_mapq = 60\<rparr>]) ''A'' ''C'') = 1
   \<and> PL (Samfile_pileup ''s1''
        (Some [\<lparr>r_seq = ''G'', r_qual = ''5'', r_qpos = 0, r_mapq = 60\<rparr>]) ''A'' ''C'') = None"
proof -
  have dp0: "DP (Samfile_pileup ''s1'' None ''A'' ''C'') = 0"
    by (simp add: Samfile_pileup_def PileupData_init_def CallData_init_def Let_def)
  have un: "\<forall>rd\<in>set [\<lparr>r_seq = ''G'', r_qual = ''5'', r_qpos = 0, r_mapq = 60\<rparr>].
              \<not> informative ''A'' ''C'' rd"
    by (simp add: informative_def py_index_def)
  have dp1: "DP (Samfile_pileup ''s1''
        (Some [\<lparr>r_seq = ''G'', r_qual = ''5'', r_qpos = 0, r_mapq = 60\<rparr>]) ''A'' ''C'') = 1"
    by (simp add: Samfile_pileup_def PileupData_init_def CallData_init_def Let_def)
  from C9_pileup_without_informative_read
      [where s = "''s1''" and pileup = None and ref = "''A''" and alt = "''C''"
      and reads = "[\<lparr>r_seq = ''G'', r_qual = ''5'', r_qpos = 0, r_mapq = 60\<rparr>]"
      and offset = 33 and maxcovg = 250]
  show ?thesis using dp0 un dp1 by simp
qed

text \<open>
  C9 for every call record fails: the record that \<open>CallData\<close> builds from the VCF fields
  \<open>DP = 0\<close> and \<open>PL = 0,0,0\<close> has depth 0 and a genotype-likelihood triple.
\<close>

theorem C9_vcf_record_counterexample:
  "DP (CallData_init ''s1'' (Some 0) (Some [0, 0, 0]) None) = 0
   \<and> PL (CallData_init ''s1'' (Some 0) (Some [0, 0, 0]) None) = Some [0, 0, 0]"
  by (simp add: CallData_init_def py_int_def)

lemma normalize_lik_Some:
  assumes "normalize_lik (h, e, n) = Some pl"
  shows "pl = map (\<lambda>l. - 10 * (l - Max {h, e, n})) [h, e, n]"
  using assms by (auto simp add: normalize_lik_def Let_def max_def split: if_splits)

text \<open>
  C10: whenever \<open>calculate_pl\<close> produces a Phred-scaled triple, the triple is the three
  accumulated log10 likelihoods minus their maximum, scaled by -10; every entry is
  non-negative, and an entry whose accumulated likelihood is the maximum is exactly 0
  (so 0 occurs in the triple).
\<close>

theorem C10_pl_normalized:
  assumes "calculate_pl reads ref alt offset = Inr (Some pl)"
  shows "\<exists>h e n. accumulate_lik ref alt offset (0, 0, 0) reads = Inr (h, e, n)
     \<and> pl = map (\<lambda>l. - 10 * (l - Max {h, e, n})) [h, e, n]
     \<and> (\<forall>x\<in>set pl. 0 \<le> x)
     \<and> (\<forall>i<3. [h, e, n] ! i = Max {h, e, n} \<longrightarrow> pl ! i = 0)
     \<and> 0 \<in> set pl"
proof -
  from assms obtain h e n where acc: "accumulate_lik ref alt offset (0, 0, 0) reads = Inr (h, e, n)"
    and nl: "normalize_lik (h, e, n) = Some pl"
    by (auto simp add: calculate_pl_def split: sum.splits)
  have pl: "pl = map (\<lambda>l. - 10 * (l - Max {h, e, n})) [h, e, n]"
    by (rule normalize_lik_Some [OF nl])
  have "\<forall>x\<in>set pl. 0 \<le> x" unfolding pl by auto
  moreover have "\<forall>i<3. [h, e, n] ! i = Max {h, e, n} \<longrightarrow> pl ! i = 0"
    unfolding pl by (auto simp add: less_Suc_eq numeral_3_eq_3)
  moreover have "0 \<in> set pl"
  proof -
    have "Max {h, e, n} \<in> {h, e, n}" by (rule Max_in) simp_all
    then show ?thesis unfolding pl by auto
  qed
  ultimately show ?thesis using acc pl by blast
qed

lemma normalize_lik_negative:
  assumes "h + e + n < 0"
  shows "\<exists>pl. normalize_lik (h, e, n) = Some pl"
  using assms by (simp add: normalize_lik_def Let_def)

lemma calculate_pl_single_ref_read:
  "\<exists>pl. calculate_pl [\<lparr>r_seq = ''A'', r_qual = ''5'', r_qpos = 0, r_mapq = 60\<rparr>] ''A'' ''C'' 33
     = Inr (Some pl)"
proof -
  define a :: real where "a = log 10 0.99"
  define b :: real where "b = log 10 ((1 - 0.01 * (1 + 0.349)) / 2)"
  define c :: real where "c = log 10 (0.01 * 0.349)"
  have "a < 0" "b < 0" "c < 0"
    unfolding a_def b_def c_def by (simp_all add: log_less_zero_cancel_iff)
  then have "a + b + c < 0" by linarith
  then obtain pl where "normalize_lik (a, b, c) = Some pl"
    using normalize_lik_negative by blast
  moreover have "accumulate_lik ''A'' ''C'' 33 (0, 0, 0)
     [\<lparr>r_seq = ''A'', r_qual = ''5'', r_qpos = 0, r_mapq = 60\<rparr>] = Inr (a, b, c)"
    unfolding a_def b_def c_def by (rule lik_single_ref_read_A_C) simp_all
  ultimately show ?thesis by (simp add: calculate_pl_def)
qed

theorem C10_pl_normalized_witness:
  "\<exists>pl. calculate_pl [\<lparr>r_seq = ''A'', r_qual = ''5'', r_qpos = 0, r_mapq = 60\<rparr>] ''A'' ''C'' 33
          = Inr (Some pl)
        \<and> (\<forall>x\<in>set pl. 0 \<le> x) \<and> 0 \<in> set pl"
proof -
  obtain pl where pl:
    "calculate_pl [\<lparr>r_seq = ''A'', r_qual = ''5'', r_qpos = 0, r_mapq = 60\<rparr>] ''A'' ''C'' 33
       = Inr (Some pl)"
    using calculate_pl_single_ref_read by blast
  from C10_pl_normalized [OF pl] have "(\<forall>x\<in>set pl. 0 \<le> x) \<and> 0 \<in> set pl" by blast
  with pl show ?thesis by blast
qed


section \<open>Properties of the unrelated-sample and pedigree markers\<close>

lemma seed_phi_dp_mode:
  assumes "\<forall>c\<in>set cs. \<not> pl_truthy (PL c)"
  shows "seed_phi info_AF cs = Inr ([1 - 0.01, 0, 0.01], [1, 0, 0])"
proof -
  from assms have "filter (\<lambda>call. pl_truthy (PL call)) cs = []"
    by (simp add: filter_empty_conv)
  then show ?thesis by (simp add: seed_phi_def)
qed

lemma seed_phi_allele_mode:
  assumes "\<exists>c\<in>set cs. pl_truthy (PL c)" and "seed_af info_AF = Inr af"
  shows "seed_phi info_AF cs =
     Inr ([(1 - af) * (1 - 0.01), af * (1 - 0.01), 0.01], [1 - af, af, 0])"
proof -
  from assms(1) have "filter (\<lambda>call. pl_truthy (PL call)) cs \<noteq> []"
    by (simp add: filter_empty_conv)
  then show ?thesis using assms(2) by (simp add: seed_phi_def err_bind_def)
qed

lemma Marker_init_phi:
  assumes "Marker_init info_AF cs slope intercept = Inr m"
  shows "\<exists>phi0 phi0_null. seed_phi info_AF cs = Inr (phi0, phi0_null)
     \<and> map phi (param_H1 m) = [map Fin phi0] \<and> map phi (param_H0 m) = [map Fin phi0_null]"
  using assms
  by (auto simp add: Marker_init_def err_bind_def split: sum.splits prod.splits)

text \<open>
  C3 (as the code has it): in the initialization of an unrelated-sample marker, if no
  sample has genotype-likelihood data the seed allele frequencies are
  \<open>phi1 = [1 - d, 0, d]\<close> and \<open>phi0 = [1, 0, 0]\<close> with \<open>d = 0.01\<close>; if at least one sample has
  them, they are \<open>phi1 = [(1 - af)(1 - d), af(1 - d), d]\<close> and \<open>phi0 = [1 - af, af, 0]\<close>, where
  \<open>af\<close> is the first entry of \<open>INFO['AF']\<close> capped at 0.9999, or 0.01 when that entry cannot
  be read. These seeds are the \<open>phi\<close> of the single first snapshots of H1 and H0.
\<close>

theorem C3_seed_allele_frequencies:
  "((\<forall>c\<in>set cs. \<not> pl_truthy (PL c)) \<longrightarrow>
      seed_phi info_AF cs = Inr ([1 - 0.01, 0, 0.01], [1, 0, 0]))
   \<and> ((\<exists>c\<in>set cs. pl_truthy (PL c)) \<and> seed_af info_AF = Inr af \<longrightarrow>
      seed_phi info_AF cs =
        Inr ([(1 - af) * (1 - 0.01), af * (1 - 0.01), 0.01], [1 - af, af, 0]))
   \<and> seed_af None = Inr 0.01
   \<and> seed_af (Some []) = Inr 0.01
   \<and> seed_af (Some (Some x # xs)) = Inr (min 0.9999 x)
   \<and> (Marker_init info_AF cs slope intercept = Inr m \<longrightarrow>
        (\<exists>phi0 phi0_null. seed_phi info_AF cs = Inr (phi0, phi0_null)
           \<and> map phi (param_H1 m) = [map Fin phi0]
           \<and> map phi (param_H0 m) = [map Fin phi0_null]))"
  using seed_phi_dp_mode seed_phi_allele_mode Marker_init_phi
  by (simp add: seed_af_def)

lemma example_calls:
  "PL (CallData_init ''s1'' (Some 5) (Some [0, 10, 20]) None) = Some [0, 10, 20]"
  "PL (CallData_init ''s2'' (Some 3) None None) = None"
  "DP (CallData_init ''s1'' (Some 5) (Some [0, 10, 20]) None) = 5"
  "DP (CallData_init ''s2'' (Some 3) None None) = 3"
  by (simp_all add: CallData_init_def py_int_def)

lemma example_seed_phi:
  "seed_phi (Some [Some 0.3])
     [CallData_init ''s1'' (Some 5) (Some [0, 10, 20]) None,
      CallData_init ''s2'' (Some 3) None None] =
   Inr ([(1 - 0.3) * (1 - 0.01), 0.3 * (1 - 0.01), 0.01], [1 - 0.3, 0.3, 0])"
  by (simp add: seed_phi_def seed_af_def err_bind_def pl_truthy_def example_calls)

lemma example_Marker_init:
  "\<exists>m. Marker_init (Some [Some 0.3])
     [CallData_init ''s1'' (Some 5) (Some [0, 10, 20]) None,
      CallData_init ''s2'' (Some 3) None None] 0 2.5 = Inr m"
  by (simp add: Marker_init_def example_seed_phi seed_coverage_def err_bind_def example_calls)

theorem C3_seed_allele_frequencies_witness:
  "seed_phi None [CallData_init ''s2'' (Some 3) None None] = Inr ([1 - 0.01, 0, 0.01], [1, 0, 0])
   \<and> seed_af (Some [Some 0.3]) = Inr 0.3
   \<and> seed_phi (Some [Some 0.3])
        [CallData_init ''s1'' (Some 5) (Some [0, 10, 20]) None,
         CallData_init ''s2'' (Some 3) None None] =
      Inr ([(1 - 0.3) * (1 - 0.01), 0.3 * (1 - 0.01), 0.01], [1 - 0.3, 0.3, 0])
   \<and> (\<exists>m. Marker_init (Some [Some 0.3])
          [CallData_init ''s1'' (Some 5) (Some [0, 10, 20]) None,
           CallData_init ''s2'' (Some 3) None None] 0 2.5 = Inr m
        \<and> map phi (param_H1 m) = [map Fin [(1 - 0.3) * (1 - 0.01), 0.3 * (1 - 0.01), 0.01]]
        \<and> map phi (param_H0 m) = [map Fin [1 - 0.3, 0.3, 0]])"
proof -
  let ?c1 = "CallData_init ''s1'' (Some 5) (Some [0, 10, 20]) None"
  let ?c2 = "CallData_init ''s2'' (Some 3) None None"
  have dp: "\<forall>c\<in>set [?c2]. \<not> pl_truthy (PL c)"
    by (simp add: pl_truthy_def example_calls)
  have al: "\<exists>c\<in>set [?c1, ?c2]. pl_truthy (PL c)"
    by (simp add: pl_truthy_def example_calls)
  obtain m where m: "Marker_init (Some [Some 0.3]) [?c1, ?c2] 0 2.5 = Inr m"
    using example_Marker_init by blast
  have af: "seed_af (Some [Some 0.3]) = Inr 0.3"
    using C3_seed_allele_frequencies
        [where x = "0.3" and xs = "[]"] by simp
  have 1: "seed_phi None [?c2] = Inr ([1 - 0.01, 0, 0.01], [1, 0, 0])"
    using C3_seed_allele_frequencies
        [where cs = "[?c2]" and info_AF = None] dp by blast
  have 2: "seed_phi (Some [Some 0.3]) [?c1, ?c2] =
      Inr ([(1 - 0.3) * (1 - 0.01), 0.3 * (1 - 0.01), 0.01], [1 - 0.3, 0.3, 0])"
    using C3_seed_allele_frequencies
        [where cs = "[?c1, ?c2]" and info_AF = "Some [Some 0.3]" and af = "0.3"] al af
    by blast
  have 3: "map phi (param_H1 m) = [map Fin [(1 - 0.3) * (1 - 0.01), 0.3 * (1 - 0.01), 0.01]]
        \<and> map phi (param_H0 m) = [map Fin [1 - 0.3, 0.3, 0]]"
    using C3_seed_allele_frequencies
        [where cs = "[?c1, ?c2]" and info_AF = "Some [Some 0.3]" and m = m
        and slope = 0 and intercept = "2.5"] m 2
    by auto
  from 3 have p1: "map phi (param_H1 m) = [map Fin [(1 - 0.3) * (1 - 0.01), 0.3 * (1 - 0.01), 0.01]]"
    and p0: "map phi (param_H0 m) = [map Fin [1 - 0.3, 0.3, 0]]"
    by blast+
  show ?thesis
    by (intro conjI exI [of _ m]) (fact 1 af 2 m p1 p0)+
qed

text \<open>
  C3 with "if any sample lacks the data" fails: of these two samples the second has no
  genotype likelihoods, and the seeds are still derived from the allele frequency.
\<close>

theorem C3_mixed_samples_counterexample:
  "PL (CallData_init ''s2'' (Some 3) None None) = None
   \<and> seed_phi (Some [Some 0.3])
        [CallData_init ''s1'' (Some 5) (Some [0, 10, 20]) None,
         CallData_init ''s2'' (Some 3) None None] \<noteq> Inr ([1 - 0.01, 0, 0.01], [1, 0, 0])"
  by (simp add: example_seed_phi example_calls)

lemma single_snapshot: "check_convergence [s] phi_tol lamb_tol delta_tol = Inr (fail s)"
  by (simp add: check_convergence_def)

lemma ped_single_snapshot: "ped_check_convergence [p] lamb_tol = Inr (ped_fail p)"
  by (simp add: ped_check_convergence_def)

text \<open>
  C4 (as the code has it): for every history of length exactly 1 and every tolerance
  configuration, the convergence check returns the \<open>fail\<close> flag of the single snapshot,
  in both modes: false for a snapshot that has not failed, true for one that has.
\<close>

theorem C4_single_snapshot_check:
  "(length param = 1 \<longrightarrow>
      check_convergence param phi_tol lamb_tol delta_tol = Inr (fail (last param)))
   \<and> (length pparam = 1 \<longrightarrow>
      ped_check_convergence pparam ped_tol = Inr (ped_fail (last pparam)))"
  by (auto simp add: length_Suc_conv single_snapshot ped_single_snapshot)

theorem C4_single_snapshot_check_witness:
  "check_convergence
     [\<lparr>phi = [Fin 0.99, Fin 0, Fin 0.01], lambda = Some (Fin 4), delta = Some (Fin 0.01),
       fail = False, loglik = None, exp_phi = None, exp_delta = None\<rparr>]
     (Fin 0.001) (Fin 0.1) (Fin 0.005) = Inr False
   \<and> ped_check_convergence
     [\<lparr>ped_lambda = Some (Fin 4), ped_fail = False, ped_loglik = None\<rparr>] (Fin 0.25) = Inr False"
  using C4_single_snapshot_check
    [where param = "[\<lparr>phi = [Fin 0.99, Fin 0, Fin 0.01], lambda = Some (Fin 4),
       delta = Some (Fin 0.01), fail = False, loglik = None, exp_phi = None, exp_delta = None\<rparr>]"
     and pparam = "[\<lparr>ped_lambda = Some (Fin 4), ped_fail = False, ped_loglik = None\<rparr>]"
     and phi_tol = "Fin 0.001" and lamb_tol = "Fin 0.1" and delta_tol = "Fin 0.005"
     and ped_tol = "Fin 0.25"]
  by simp

text \<open>
  C4 for every history of length 1 fails: the single first snapshot of a marker of total
  depth 0 has \<open>fail\<close> set, and the check returns true on it, in both modes.
\<close>

theorem C4_failed_snapshot_counterexample:
  "check_convergence
     [\<lparr>phi = [Fin 0.99, Fin 0, Fin 0.01], lambda = None, delta = None,
       fail = True, loglik = None, exp_phi = None, exp_delta = None\<rparr>]
     (Fin 0.001) (Fin 0.1) (Fin 0.005) = Inr True
   \<and> ped_check_convergence
     [\<lparr>ped_lambda = None, ped_fail = True, ped_loglik = None\<rparr>] (Fin 0.25) = Inr True"
  by (simp add: check_convergence_def ped_check_convergence_def)

lemma likelihood_ratio_Some:
  assumes "param_H0 m \<noteq> []" and "param_H1 m \<noteq> []"
    and "loglik (last (param_H0 m)) = Some a" and "loglik (last (param_H1 m)) = Some b"
  shows "likelihood_ratio m = Some (pf_mul (Fin (- 2)) (pf_sub a b))"
  using assms by (simp add: likelihood_ratio_def)

lemma likelihood_ratio_None:
  assumes "loglik (last (param_H0 m)) = None \<or> loglik (last (param_H1 m)) = None"
  shows "likelihood_ratio m = None"
  using assms by (auto simp add: likelihood_ratio_def)

lemma Marker_init_zero_depth:
  assumes "Marker_init info_AF cs slope intercept = Inr m" and "sum_list (map DP cs) = 0"
  shows "length (param_H1 m) = 1 \<and> length (param_H0 m) = 1
     \<and> fail (last (param_H1 m)) \<and> fail (last (param_H0 m))
     \<and> loglik (last (param_H1 m)) = None \<and> loglik (last (param_H0 m)) = None"
  using assms
  by (auto simp add: Marker_init_def seed_coverage_def err_bind_def split: sum.splits prod.splits)

text \<open>
  C7: the likelihood ratio of an unrelated-sample marker is \<open>-2 * (a - b)\<close> for the final
  log-likelihoods \<open>a\<close> of H0 and \<open>b\<close> of H1; it is \<open>None\<close>, and nothing is raised, whenever
  one of the two is \<open>None\<close>. In particular a marker of total depth 0 starts with one
  failed snapshot per hypothesis, whose log-likelihood is \<open>None\<close>, and its ratio is \<open>None\<close>.
\<close>

theorem C7_marker_likelihood_ratio:
  "(param_H0 m \<noteq> [] \<and> param_H1 m \<noteq> []
      \<and> loglik (last (param_H0 m)) = Some a \<and> loglik (last (param_H1 m)) = Some b \<longrightarrow>
      likelihood_ratio m = Some (pf_mul (Fin (- 2)) (pf_sub a b)))
   \<and> (param_H0 m \<noteq> [] \<and> param_H1 m \<noteq> []
      \<and> loglik (last (param_H0 m)) = Some (Fin x) \<and> loglik (last (param_H1 m)) = Some (Fin y) \<longrightarrow>
      likelihood_ratio m = Some (Fin (- 2 * (x - y))))
   \<and> (loglik (last (param_H0 m)) = None \<or> loglik (last (param_H1 m)) = None \<longrightarrow>
      likelihood_ratio m = None)
   \<and> (Marker_init info_AF cs slope intercept = Inr m0 \<and> sum_list (map DP cs) = 0 \<longrightarrow>
      length (param_H1 m0) = 1 \<and> length (param_H0 m0) = 1
      \<and> fail (last (param_H1 m0)) \<and> fail (last (param_H0 m0))
      \<and> loglik (last (param_H1 m0)) = None \<and> loglik (last (param_H0 m0)) = None
      \<and> likelihood_ratio m0 = None)"
proof (intro conjI impI)
  assume "Marker_init info_AF cs slope intercept = Inr m0 \<and> sum_list (map DP cs) = 0"
  then have z: "length (param_H1 m0) = 1 \<and> length (param_H0 m0) = 1
     \<and> fail (last (param_H1 m0)) \<and> fail (last (param_H0 m0))
     \<and> loglik (last (param_H1 m0)) = None \<and> loglik (last (param_H0 m0)) = None"
    using Marker_init_zero_depth by blast
  then show "length (param_H1 m0) = 1" "length (param_H0 m0) = 1"
    "fail (last (param_H1 m0))" "fail (last (param_H0 m0))"
    "loglik (last (param_H1 m0)) = None" "loglik (last (param_H0 m0)) = None"
    by simp_all
  from z show "likelihood_ratio m0 = None" by (simp add: likelihood_ratio_None)
qed (simp_all add: likelihood_ratio_Some likelihood_ratio_None pf_sub_def)

lemma example_zero_depth:
  "\<exists>m. Marker_init None
     [CallData_init ''s1'' (Some 0) None None, CallData_init ''s2'' None None None] 0 2.5 = Inr m"
  by (simp add: Marker_init_def seed_phi_def seed_coverage_def err_bind_def CallData_init_def
      pl_truthy_def)

theorem C7_marker_likelihood_ratio_witness:
  "likelihood_ratio
     \<lparr>calls = [], disp = Some 2.5,
      param_H1 = [\<lparr>phi = [Fin 0.69, Fin 0.3, Fin 0.01], lambda = Some (Fin 4),
                   delta = Some (Fin 0.01), fail = False, loglik = Some (Fin (- 8)),
                   exp_phi = None, exp_delta = None\<rparr>],
      param_H0 = [\<lparr>phi = [Fin 0.7, Fin 0.3, Fin 0], lambda = Some (Fin 4),
                   delta = Some (Fin 0.01), fail = False, loglik = Some (Fin (- 10)),
                   exp_phi = None, exp_delta = None\<rparr>],
      lik_ratio = None\<rparr> = Some (Fin 4)
   \<and> (\<exists>m. Marker_init None
          [CallData_init ''s1'' (Some 0) None None, CallData_init ''s2'' None None None] 0 2.5
          = Inr m
        \<and> fail (last (param_H1 m)) \<and> fail (last (param_H0 m))
        \<and> loglik (last (param_H1 m)) = None \<and> loglik (last (param_H0 m)) = None
        \<and> likelihood_ratio m = None)"
proof -
  let ?cs = "[CallData_init ''s1'' (Some 0) None None, CallData_init ''s2'' None None None]"
  let ?m = "\<lparr>calls = [], disp = Some 2.5,
      param_H1 = [\<lparr>phi = [Fin 0.69, Fin 0.3, Fin 0.01], lambda = Some (Fin 4),
                   delta = Some (Fin 0.01), fail = False, loglik = Some (Fin (- 8)),
                   exp_phi = None, exp_delta = None\<rparr>],
      param_H0 = [\<lparr>phi = [Fin 0.7, Fin 0.3, Fin 0], lambda = Some (Fin 4),
                   delta = Some (Fin 0.01), fail = False, loglik = Some (Fin (- 10)),
                   exp_phi = None, exp_delta = None\<rparr>],
      lik_ratio = None\<rparr>"
  obtain m0 where m0: "Marker_init None ?cs 0 2.5 = Inr m0"
    using example_zero_depth by blast
  have z: "sum_list (map DP ?cs) = 0" by (simp add: CallData_init_def)
  have 1: "likelihood_ratio ?m = Some (Fin 4)"
    using C7_marker_likelihood_ratio
        [where m = ?m and x = "- 10" and y = "- 8"] by simp
  have 2: "fail (last (param_H1 m0)) \<and> fail (last (param_H0 m0))
        \<and> loglik (last (param_H1 m0)) = None \<and> loglik (last (param_H0 m0)) = None
        \<and> likelihood_ratio m0 = None"
    using C7_marker_likelihood_ratio
        [where ?m0.0 = m0 and cs = ?cs and info_AF = None and slope = 0 and intercept = "2.5"]
      m0 z by blast
  from 2 m0 have "\<exists>m. Marker_init None ?cs 0 2.5 = Inr m
        \<and> fail (last (param_H1 m)) \<and> fail (last (param_H0 m))
        \<and> loglik (last (param_H1 m)) = None \<and> loglik (last (param_H0 m)) = None
        \<and> likelihood_ratio m = None"
    by blast
  with 1 show ?thesis by (rule conjI)
qed

lemma update_param_solver_fails:
  assumes "param \<noteq> []" and "em_update (last param) (calls m) (disp m) = Inl e"
  shows "update_param em_update m param = Inr ((last param)\<lparr>fail := True\<rparr>)"
  using assms by (simp add: update_param_def)

lemma check_convergence_failed:
  assumes "param \<noteq> []" and "fail (last param)"
  shows "check_convergence param phi_tol lamb_tol delta_tol = Inr True"
  using assms by (simp add: check_convergence_def)

lemma check_convergence_False:
  assumes "check_convergence param phi_tol lamb_tol delta_tol = Inr False"
  shows "param \<noteq> [] \<and> \<not> fail (last param)"
  using assms by (auto simp add: check_convergence_def split: if_splits)

text \<open>
  The driver steps only from a history whose last snapshot has not failed, so in a
  history that it reaches only the last snapshot can have failed.
\<close>

lemma em_step_from:
  assumes "em_step em_update m tol h h'"
  shows "h \<noteq> [] \<and> \<not> fail (last h) \<and> (\<exists>s. h' = h @ [s])"
  using assms
proof cases
  case (iterate param_new)
  from check_convergence_False [OF iterate(2)] iterate(1) show ?thesis by simp
qed

lemma em_run_only_last_failed:
  assumes "em_run em_update m tol h0 h" and "\<forall>i. Suc i < length h0 \<longrightarrow> \<not> fail (h0 ! i)"
  shows "\<forall>i. Suc i < length h \<longrightarrow> \<not> fail (h ! i)"
  using assms unfolding em_run_def
proof (induction rule: rtranclp_induct)
  case base
  then show ?case by simp
next
  case (step h h')
  from em_step_from [OF step(2)] obtain s where ne: "h \<noteq> []" and nf: "\<not> fail (last h)"
    and h': "h' = h @ [s]" by blast
  show ?case
  proof (intro allI impI)
    fix i assume "Suc i < length h'"
    then have i: "i < length h" by (simp add: h')
    show "\<not> fail (h' ! i)"
    proof (cases "Suc i < length h")
      case True
      with step(3) [OF step(4)] i show ?thesis by (simp add: h' nth_append)
    next
      case False
      with i have "i = length h - 1" by simp
      with nf ne i show ?thesis by (simp add: h' nth_append last_conv_nth)
    qed
  qed
qed

lemma em_run_failed_is_last:
  assumes "em_run em_update m tol [s0] h" and "i < length h" and "fail (h ! i)"
    and "i \<le> j" and "j < length h"
  shows "h ! j = h ! i"
proof -
  have "\<forall>i. Suc i < length h \<longrightarrow> \<not> fail (h ! i)"
    by (rule em_run_only_last_failed [OF assms(1)]) simp
  with assms(3) have "\<not> Suc i < length h" by blast
  with assms(4,5) have "j = i" by simp
  then show ?thesis by simp
qed

text \<open>
  C6: when the solver fails on an unrelated-sample track, the new snapshot is a copy of
  the previous one with \<open>fail\<close> set. A history whose last snapshot has failed is terminal
  for the convergence check, and the driver takes no step from it. So in every history
  that the driver reaches from a single first snapshot, a failed snapshot is followed by
  no other: every snapshot from it on is the failed snapshot itself, \<open>fail\<close> is never
  reset, and no value changes beyond it.
\<close>

theorem C6_failure_freezes_track:
  "(param \<noteq> [] \<and> em_update (last param) (calls m) (disp m) = Inl e \<longrightarrow>
      update_param em_update m param = Inr ((last param)\<lparr>fail := True\<rparr>))
   \<and> (param \<noteq> [] \<and> fail (last param) \<longrightarrow>
      check_convergence param phi_tol lamb_tol delta_tol = Inr True
      \<and> (\<forall>param'. \<not> em_step em_update m tol param param'))
   \<and> (em_run em_update m tol [s0] h \<and> i < length h \<and> fail (h ! i)
      \<and> i \<le> j \<and> j < length h \<longrightarrow>
      h ! j = h ! i)"
proof (intro conjI impI allI)
  assume "param \<noteq> [] \<and> em_update (last param) (calls m) (disp m) = Inl e"
  then show "update_param em_update m param = Inr ((last param)\<lparr>fail := True\<rparr>)"
    by (simp add: update_param_solver_fails)
next
  assume "param \<noteq> [] \<and> fail (last param)"
  then show "check_convergence param phi_tol lamb_tol delta_tol = Inr True"
    by (simp add: check_convergence_failed)
next
  fix param'
  assume "param \<noteq> [] \<and> fail (last param)"
  then show "\<not> em_step em_update m tol param param'"
    using em_step_from by blast
next
  assume "em_run em_update m tol [s0] h \<and> i < length h \<and> fail (h ! i)
      \<and> i \<le> j \<and> j < length h"
  then show "h ! j = h ! i"
    using em_run_failed_is_last by blast
qed

lemma example_em_run:
  "em_run (\<lambda>s cs d. Inl ZeroDivisionError)
     \<lparr>calls = [], disp = Some 2.5, param_H1 = [], param_H0 = [], lik_ratio = None\<rparr>
     (Fin 0.001, Fin 0.1, Fin 0.005)
     [\<lparr>phi = [Fin 0.99, Fin 0, Fin 0.01], lambda = Some (Fin 4), delta = Some (Fin 0.01),
       fail = False, loglik = None, exp_phi = None, exp_delta = None\<rparr>]
     [\<lparr>phi = [Fin 0.99, Fin 0, Fin 0.01], lambda = Some (Fin 4), delta = Some (Fin 0.01),
       fail = False, loglik = None, exp_phi = None, exp_delta = None\<rparr>,
      \<lparr>phi = [Fin 0.99, Fin 0, Fin 0.01], lambda = Some (Fin 4), delta = Some (Fin 0.01),
       fail = True, loglik = None, exp_phi = None, exp_delta = None\<rparr>]"
proof -
  let ?s0 = "\<lparr>phi = [Fin 0.99, Fin 0, Fin 0.01], lambda = Some (Fin 4), delta = Some (Fin 0.01),
       fail = False, loglik = None, exp_phi = None, exp_delta = None\<rparr>"
  let ?s1 = "\<lparr>phi = [Fin 0.99, Fin 0, Fin 0.01], lambda = Some (Fin 4), delta = Some (Fin 0.01),
       fail = True, loglik = None, exp_phi = None, exp_delta = None\<rparr>"
  let ?m = "\<lparr>calls = [], disp = Some 2.5, param_H1 = [], param_H0 = [], lik_ratio = None\<rparr>"
  let ?tol = "(Fin 0.001, Fin 0.1, Fin 0.005)"
  have c: "check_convergence [?s0] (fst ?tol) (fst (snd ?tol)) (snd (snd ?tol)) = Inr False"
    by (simp add: check_convergence_def)
  have u: "update_param (\<lambda>s cs d. Inl ZeroDivisionError) ?m [?s0] = Inr ?s1"
    by (simp add: update_param_def)
  from em_step.iterate [OF c u]
  have "em_step (\<lambda>s cs d. Inl ZeroDivisionError) ?m ?tol [?s0] [?s0, ?s1]" by simp
  then show ?thesis unfolding em_run_def by (rule r_into_rtranclp)
qed

theorem C6_failure_freezes_track_witness:
  "update_param (\<lambda>s cs d. Inl ZeroDivisionError)
     \<lparr>calls = [], disp = Some 2.5, param_H1 = [], param_H0 = [], lik_ratio = None\<rparr>
     [\<lparr>phi = [Fin 0.99, Fin 0, Fin 0.01], lambda = Some (Fin 4), delta = Some (Fin 0.01),
       fail = False, loglik = None, exp_phi = None, exp_delta = None\<rparr>]
   = Inr \<lparr>phi = [Fin 0.99, Fin 0, Fin 0.01], lambda = Some (Fin 4), delta = Some (Fin 0.01),
       fail = True, loglik = None, exp_phi = None, exp_delta = None\<rparr>
   \<and> check_convergence
     [\<lparr>phi = [Fin 0.99, Fin 0, Fin 0.01], lambda = Some (Fin 4), delta = Some (Fin 0.01),
       fail = False, loglik = None, exp_phi = None, exp_delta = None\<rparr>,
      \<lparr>phi = [Fin 0.99, Fin 0, Fin 0.01], lambda = Some (Fin 4), delta = Some (Fin 0.01),
       fail = True, loglik = None, exp_phi = None, exp_delta = None\<rparr>]
     (Fin 0.001) (Fin 0.1) (Fin 0.005) = Inr True
   \<and> em_run (\<lambda>s cs d. Inl ZeroDivisionError)
     \<lparr>calls = [], disp = Some 2.5, param_H1 = [], param_H0 = [], lik_ratio = None\<rparr>
     (Fin 0.001, Fin 0.1, Fin 0.005)
     [\<lparr>phi = [Fin 0.99, Fin 0, Fin 0.01], lambda = Some (Fin 4), delta = Some (Fin 0.01),
       fail = False, loglik = None, exp_phi = None, exp_delta = None\<rparr>]
     [\<lparr>phi = [Fin 0.99, Fin 0, Fin 0.01], lambda = Some (Fin 4), delta = Some (Fin 0.01),
       fail = False, loglik = None, exp_phi = None, exp_delta = None\<rparr>,
      \<lparr>phi = [Fin 0.99, Fin 0, Fin 0.01], lambda = Some (Fin 4), delta = Some (Fin 0.01),
       fail = True, loglik = None, exp_phi = None, exp_delta = None\<rparr>]"
proof -
  let ?s0 = "\<lparr>phi = [Fin 0.99, Fin 0, Fin 0.01], lambda = Some (Fin 4), delta = Some (Fin 0.01),
       fail = False, loglik = None, exp_phi = None, exp_delta = None\<rparr>"
  let ?s1 = "\<lparr>phi = [Fin 0.99, Fin 0, Fin 0.01], lambda = Some (Fin 4), delta = Some (Fin 0.01),
       fail = True, loglik = None, exp_phi = None, exp_delta = None\<rparr>"
  let ?m = "\<lparr>calls = [], disp = Some 2.5, param_H1 = [], param_H0 = [], lik_ratio = None\<rparr>"
  let ?tol = "(Fin 0.001, Fin 0.1, Fin 0.005)"
  let ?f = "\<lambda>(s::snapshot) (cs::call_data list) (d::real option).
      (Inl ZeroDivisionError :: py_error + snapshot)"
  have 1: "update_param ?f ?m [?s0] = Inr ?s1"
    using C6_failure_freezes_track
        [where em_update = ?f and m = ?m and param = "[?s0]" and e = ZeroDivisionError]
    by simp
  have 2: "check_convergence [?s0, ?s1] (Fin 0.001) (Fin 0.1) (Fin 0.005) = Inr True"
    using C6_failure_freezes_track
        [where param = "[?s0, ?s1]" and phi_tol = "Fin 0.001" and lamb_tol = "Fin 0.1"
        and delta_tol = "Fin 0.005"]
    by simp
  have 3: "em_run ?f ?m ?tol [?s0] [?s0, ?s1]" by (rule example_em_run)
  have "[?s0, ?s1] ! 1 = [?s0, ?s1] ! 1"
    using C6_failure_freezes_track
        [where em_update = ?f and m = ?m and tol = ?tol and ?s0.0 = ?s0
        and h = "[?s0, ?s1]" and i = 1 and j = 1] 3
    by simp
  from 1 2 3 show ?thesis by (intro conjI)
qed

lemma ped_update_param_neg_inf:
  assumes "param \<noteq> []"
    and "ped_update (last param) (ped_calls m) (ped_disp m) gt = Inr p"
    and "ped_loglik p = Some NInf"
  shows "ped_update_param ped_update m param gt = Inr (p\<lparr>ped_fail := True\<rparr>)"
  using assms by (simp add: ped_update_param_def Let_def)

lemma ped_update_param_raises:
  assumes "param \<noteq> []"
    and "ped_update (last param) (ped_calls m) (ped_disp m) gt = Inl e"
  shows "ped_update_param ped_update m param gt = Inr ((last param)\<lparr>ped_fail := True\<rparr>)"
  using assms by (simp add: ped_update_param_def Let_def)

text \<open>
  C8: in pedigree mode, if the log-likelihood of the snapshot that the solver returns is
  exactly negative infinity, the new snapshot is that snapshot with \<open>fail\<close> set; if the
  solver raises, the new snapshot is a copy of the previous one with \<open>fail\<close> set.
\<close>

theorem C8_ped_update_param:
  "(param \<noteq> [] \<and> ped_update (last param) (ped_calls m) (ped_disp m) gt = Inr p
      \<and> ped_loglik p = Some NInf \<longrightarrow>
      ped_update_param ped_update m param gt = Inr (p\<lparr>ped_fail := True\<rparr>))
   \<and> (param \<noteq> [] \<and> ped_update (last param) (ped_calls m) (ped_disp m) gt = Inl e \<longrightarrow>
      ped_update_param ped_update m param gt = Inr ((last param)\<lparr>ped_fail := True\<rparr>))"
  by (simp add: ped_update_param_neg_inf ped_update_param_raises)

theorem C8_ped_update_param_witness:
  "ped_update_param
     (\<lambda>s cs d g. Inr \<lparr>ped_lambda = Some (Fin 5), ped_fail = False, ped_loglik = Some NInf\<rparr>)
     \<lparr>ped_calls = [], ped_disp = Some 2.5,
      ped_family = \<lparr>father = ''F'', mother = ''M'', children = [''c1'']\<rparr>,
      ped_param = [], ped_lik_ratio = None\<rparr>
     [\<lparr>ped_lambda = Some (Fin 4), ped_fail = False, ped_loglik = None\<rparr>]
     \<lparr>gt_father = (2, 0, 0), gt_mother = (1, 0, 1)\<rparr>
   = Inr \<lparr>ped_lambda = Some (Fin 5), ped_fail = True, ped_loglik = Some NInf\<rparr>
   \<and> ped_update_param
     (\<lambda>s cs d g. Inl ZeroDivisionError)
     \<lparr>ped_calls = [], ped_disp = Some 2.5,
      ped_family = \<lparr>father = ''F'', mother = ''M'', children = [''c1'']\<rparr>,
      ped_param = [], ped_lik_ratio = None\<rparr>
     [\<lparr>ped_lambda = Some (Fin 4), ped_fail = False, ped_loglik = None\<rparr>]
     \<lparr>gt_father = (2, 0, 0), gt_mother = (1, 0, 1)\<rparr>
   = Inr \<lparr>ped_lambda = Some (Fin 4), ped_fail = True, ped_loglik = None\<rparr>"
proof -
  let ?m = "\<lparr>ped_calls = [], ped_disp = Some 2.5,
      ped_family = \<lparr>father = ''F'', mother = ''M'', children = [''c1'']\<rparr>,
      ped_param = [], ped_lik_ratio = None\<rparr>"
  let ?h = "[\<lparr>ped_lambda = Some (Fin 4), ped_fail = False, ped_loglik = None\<rparr>]"
  let ?g = "\<lparr>gt_father = (2, 0, 0), gt_mother = (1, 0, 1)\<rparr>"
  let ?p = "\<lparr>ped_lambda = Some (Fin 5), ped_fail = False, ped_loglik = Some NInf\<rparr>"
  have 1: "ped_update_param (\<lambda>s cs d g. Inr ?p) ?m ?h ?g
      = Inr \<lparr>ped_lambda = Some (Fin 5), ped_fail = True, ped_loglik = Some NInf\<rparr>"
    using C8_ped_update_param
        [where ped_update = "\<lambda>s cs d g. Inr ?p" and m = ?m and param = ?h and gt = ?g
        and p = ?p]
    by simp
  have 2: "ped_update_param (\<lambda>s cs d g. Inl ZeroDivisionError) ?m ?h ?g
      = Inr \<lparr>ped_lambda = Some (Fin 4), ped_fail = True, ped_loglik = None\<rparr>"
    using C8_ped_update_param
        [where ped_update = "\<lambda>s cs d g. Inl ZeroDivisionError" and m = ?m and param = ?h
        and gt = ?g and e = ZeroDivisionError]
    by simp
  from 1 2 show ?thesis by (rule conjI)
qed


section \<open>Properties of the pedigree likelihood ratio\<close>



lemma underflow_zero [simp]: "underflow 0 = 0"
  by (simp add: underflow_def half_least_double_def)


lemma final_logliks_values:
  assumes "\<forall>track\<in>set prm. snd track \<noteq> []"
  shows "final_logliks (map snd prm) = Inr (map snd (final_values prm))"
  using assms by (induction prm) (auto simp add: final_values_def)

lemma finite_values_Cons:
  "finite_values ((g, v) # fs) =
     (case v of Some (Fin r) \<Rightarrow> [(g, r)] | _ \<Rightarrow> []) @ finite_values fs"
  by (simp add: finite_values_def)

lemma finite_values_Nil [simp]: "finite_values [] = []"
  by (simp add: finite_values_def)

lemma Max_insert_max:
  fixes c r :: real
  assumes "finite S"
  shows "Max (insert (max c r) S) = Max (insert c (insert r S))"
  using assms by (cases "S = {}") (auto simp add: max.assoc)

lemma py_max_from_Fin:
  assumes "\<forall>gv\<in>set fs. is_number (snd gv) \<or> snd gv = None"
  shows "py_max_from (Some (Fin c)) (map snd fs)
     = Some (Fin (Max (insert c (snd ` set (finite_values fs)))))"
  using assms
proof (induction fs arbitrary: c)
  case Nil
  then show ?case by simp
next
  case (Cons gv fs)
  obtain g v where gv: "gv = (g, v)" by (cases gv)
  from Cons.prems have rest: "\<forall>gv\<in>set fs. is_number (snd gv) \<or> snd gv = None" by simp
  from Cons.prems have v: "is_number v \<or> v = None" by (simp add: gv)
  show ?case
  proof (cases v)
    case None
    with Cons.IH [OF rest, of c] show ?thesis by (simp add: gv finite_values_Cons)
  next
    case (Some x)
    with v have "x = NInf \<or> (\<exists>r. x = Fin r)" by (cases x) auto
    then show ?thesis
    proof
      assume "x = NInf"
      with Some Cons.IH [OF rest, of c] show ?thesis by (simp add: gv finite_values_Cons)
    next
      assume "\<exists>r. x = Fin r"
      then obtain r where x: "x = Fin r" by blast
      have "Max (insert (max c r) (snd ` set (finite_values fs)))
          = Max (insert c (insert r (snd ` set (finite_values fs))))"
        by (rule Max_insert_max) simp
      with Some x Cons.IH [OF rest, of "max c r"] show ?thesis
        by (auto simp add: gv finite_values_Cons max_def)
    qed
  qed
qed

lemma py_max_from_NInf:
  assumes "\<forall>gv\<in>set fs. is_number (snd gv) \<or> snd gv = None"
  shows "py_max_from (Some NInf) (map snd fs)
     = (if finite_values fs = [] then Some NInf
        else Some (Fin (Max (snd ` set (finite_values fs)))))"
  using assms
proof (induction fs)
  case Nil
  then show ?case by simp
next
  case (Cons gv fs)
  obtain g v where gv: "gv = (g, v)" by (cases gv)
  from Cons.prems have rest: "\<forall>gv\<in>set fs. is_number (snd gv) \<or> snd gv = None" by simp
  from Cons.prems have v: "is_number v \<or> v = None" by (simp add: gv)
  show ?case
  proof (cases v)
    case None
    with Cons.IH [OF rest] show ?thesis by (simp add: gv finite_values_Cons)
  next
    case (Some x)
    with v have "x = NInf \<or> (\<exists>r. x = Fin r)" by (cases x) auto
    then show ?thesis
    proof
      assume "x = NInf"
      with Some Cons.IH [OF rest] show ?thesis by (simp add: gv finite_values_Cons)
    next
      assume "\<exists>r. x = Fin r"
      then obtain r where x: "x = Fin r" by blast
      with Some py_max_from_Fin [OF rest, of r] show ?thesis
        by (simp add: gv finite_values_Cons)
    qed
  qed
qed

lemma py_max_from_None:
  assumes "\<forall>gv\<in>set fs. is_number (snd gv) \<or> snd gv = None"
  shows "py_max_from None (map snd fs)
     = (if finite_values fs \<noteq> [] then Some (Fin (Max (snd ` set (finite_values fs))))
        else if \<exists>gv\<in>set fs. snd gv = Some NInf then Some NInf else None)"
  using assms
proof (induction fs)
  case Nil
  then show ?case by simp
next
  case (Cons gv fs)
  obtain g v where gv: "gv = (g, v)" by (cases gv)
  from Cons.prems have rest: "\<forall>gv\<in>set fs. is_number (snd gv) \<or> snd gv = None" by simp
  from Cons.prems have v: "is_number v \<or> v = None" by (simp add: gv)
  show ?case
  proof (cases v)
    case None
    with Cons.IH [OF rest] show ?thesis by (simp add: gv finite_values_Cons)
  next
    case (Some x)
    with v have "x = NInf \<or> (\<exists>r. x = Fin r)" by (cases x) auto
    then show ?thesis
    proof
      assume "x = NInf"
      with Some py_max_from_NInf [OF rest] show ?thesis by (simp add: gv finite_values_Cons)
    next
      assume "\<exists>r. x = Fin r"
      then obtain r where x: "x = Fin r" by blast
      with Some py_max_from_Fin [OF rest, of r] show ?thesis
        by (simp add: gv finite_values_Cons)
    qed
  qed
qed

text \<open>The maximum that \<open>max\<close> returns on a list of numbers and \<open>None\<close>s.\<close>

lemma py_max_values:
  assumes "\<forall>gv\<in>set fs. is_number (snd gv) \<or> snd gv = None" and "fs \<noteq> []"
  shows "py_max (map snd fs)
     = Inr (if finite_values fs \<noteq> [] then Some (Fin (spec_maxLL (finite_values fs)))
            else if \<exists>gv\<in>set fs. snd gv = Some NInf then Some NInf else None)"
proof -
  from assms(2) obtain gv rest where fs: "fs = gv # rest" by (cases fs) auto
  obtain g v where gv: "gv = (g, v)" by (cases gv)
  from assms(1) have rest: "\<forall>gv\<in>set rest. is_number (snd gv) \<or> snd gv = None"
    by (simp add: fs)
  from assms(1) have v: "is_number v \<or> v = None" by (simp add: fs gv)
  show ?thesis
  proof (cases v)
    case None
    with py_max_from_None [OF rest] show ?thesis
      by (simp add: fs gv finite_values_Cons spec_maxLL_def)
  next
    case (Some x)
    with v have "x = NInf \<or> (\<exists>r. x = Fin r)" by (cases x) auto
    then show ?thesis
    proof
      assume "x = NInf"
      with Some py_max_from_NInf [OF rest] show ?thesis
        by (simp add: fs gv finite_values_Cons spec_maxLL_def)
    next
      assume "\<exists>r. x = Fin r"
      then obtain r where x: "x = Fin r" by blast
      with Some py_max_from_Fin [OF rest, of r] show ?thesis
        by (simp add: fs gv finite_values_Cons spec_maxLL_def)
    qed
  qed
qed

lemma exp_no_overflow:
  fixes d :: real
  assumes "d \<le> 0"
  shows "\<not> overflow_bound \<le> exp d"
proof -
  from assms have "exp d \<le> 1" by simp
  moreover have "1 < overflow_bound" by (simp add: overflow_bound_def)
  ultimately show ?thesis by linarith
qed

lemma pf_add_NaN [simp]: "pf_add a NaN = NaN"
  by (cases a) simp_all

lemma term_Fin:
  assumes "r \<le> M"
  shows "err_bind (opt_sub (Some (Fin r)) (Some (Fin M))) pf_exp
     = Inr (Fin (underflow (exp (r - M))))"
  using exp_no_overflow [of "r - M"] assms
  by (simp add: err_bind_def pf_sub_def)

lemma term_NInf:
  "err_bind (opt_sub (Some NInf) (Some (Fin M))) pf_exp = Inr (Fin 0)"
  by (simp add: err_bind_def pf_sub_def)

lemma final_values_Cons:
  "final_values ((g, h) # prm) = (g, ped_loglik (last h)) # final_values prm"
  by (simp add: final_values_def)

lemma final_values_Nil [simp]: "final_values [] = []"
  by (simp add: final_values_def)


text \<open>The loop raises a TypeError when a final log-likelihood is \<open>None\<close>.\<close>

lemma ped_lik_sums_None:
  assumes "\<forall>track\<in>set prm. snd track \<noteq> []"
    and "\<forall>gv\<in>set (final_values prm). is_number (snd gv) \<or> snd gv = None"
    and "\<exists>gv\<in>set (final_values prm). snd gv = None"
    and "mx = None \<or> mx = Some NInf
         \<or> (\<exists>M. mx = Some (Fin M) \<and> (\<forall>gl\<in>set (finite_values (final_values prm)). snd gl \<le> M))"
  shows "ped_lik_sums prm mx (a, b) = Inl TypeError"
  using assms
proof (induction prm arbitrary: a b)
  case Nil
  then show ?case by simp
next
  case (Cons track prm)
  obtain g h where track: "track = (g, h)" by (cases track)
  from Cons.prems(1) have h: "h \<noteq> []" and ne: "\<forall>track\<in>set prm. snd track \<noteq> []"
    by (simp_all add: track)
  from Cons.prems(2) have v: "is_number (ped_loglik (last h)) \<or> ped_loglik (last h) = None"
    and nums: "\<forall>gv\<in>set (final_values prm). is_number (snd gv) \<or> snd gv = None"
    by (simp_all add: track final_values_Cons)
  from Cons.prems(4) have mx: "mx = None \<or> mx = Some NInf
         \<or> (\<exists>M. mx = Some (Fin M) \<and> (\<forall>gl\<in>set (finite_values (final_values prm)). snd gl \<le> M))"
    by (auto simp add: track final_values_Cons finite_values_Cons)
  show ?case
  proof (cases "ped_loglik (last h)")
    case None
    then show ?thesis by (simp add: track h err_bind_def)
  next
    case (Some x)
    with Cons.prems(3) have ex: "\<exists>gv\<in>set (final_values prm). snd gv = None"
      by (simp add: track final_values_Cons)
    note IH = Cons.IH [OF ne nums ex mx]
    from Some v have x: "x = NInf \<or> (\<exists>r. x = Fin r)" by (cases x) auto
    show ?thesis
    proof (cases mx)
      case None
      with Some show ?thesis by (simp add: track h err_bind_def)
    next
      case mxS: (Some y)
      from Cons.prems(4) mxS have y: "y = NInf \<or> (\<exists>M. y = Fin M
          \<and> (\<forall>gl\<in>set (finite_values (final_values (track # prm))). snd gl \<le> M))"
        by auto
      from x show ?thesis
      proof
        assume xn: "x = NInf"
        from y have "\<exists>t. err_bind (opt_sub (Some x) (Some y)) pf_exp = Inr t"
          by (auto simp add: xn err_bind_def pf_sub_def)
        then obtain t where "err_bind (opt_sub (Some x) (Some y)) pf_exp = Inr t" by blast
        with IH show ?thesis by (simp add: track h Some mxS del: opt_sub.simps)
      next
        assume "\<exists>r. x = Fin r"
        then obtain r where xr: "x = Fin r" by blast
        from y have "\<exists>t. err_bind (opt_sub (Some x) (Some y)) pf_exp = Inr t"
        proof
          assume "y = NInf"
          then show ?thesis by (simp add: xr err_bind_def pf_sub_def)
        next
          assume "\<exists>M. y = Fin M
            \<and> (\<forall>gl\<in>set (finite_values (final_values (track # prm))). snd gl \<le> M)"
          then obtain M where yM: "y = Fin M"
            and le: "\<forall>gl\<in>set (finite_values (final_values (track # prm))). snd gl \<le> M"
            by blast
          from le Some have "r \<le> M"
            by (simp add: track final_values_Cons finite_values_Cons xr)
          from term_Fin [OF this] show ?thesis by (simp add: xr yM)
        qed
        then obtain t where "err_bind (opt_sub (Some x) (Some y)) pf_exp = Inr t" by blast
        with IH show ?thesis by (simp add: track h Some mxS del: opt_sub.simps)
      qed
    qed
  qed
qed


lemma spec_maxLL_ge:
  assumes "gl \<in> set lls"
  shows "snd gl \<le> spec_maxLL lls"
  unfolding spec_maxLL_def using assms by (intro Max_ge) auto





text \<open>The ratio when a final log-likelihood is \<open>None\<close>: a TypeError.\<close>

lemma ped_likelihood_ratio_None:
  assumes ne: "\<forall>track\<in>set (ped_param m). snd track \<noteq> []"
    and vals: "\<forall>gv\<in>set (final_values (ped_param m)). is_number (snd gv) \<or> snd gv = None"
    and ex: "\<exists>gv\<in>set (final_values (ped_param m)). snd gv = None"
  shows "ped_likelihood_ratio m = Inl TypeError"
proof -
  let ?fs = "final_values (ped_param m)"
  from ex have fne: "?fs \<noteq> []" by auto
  define mx where "mx = (if finite_values ?fs \<noteq> [] then Some (Fin (spec_maxLL (finite_values ?fs)))
            else if \<exists>gv\<in>set ?fs. snd gv = Some NInf then Some NInf else None)"
  have pm: "py_max (map snd ?fs) = Inr mx"
    using py_max_values [OF vals fne] by (simp add: mx_def)
  have shape: "mx = None \<or> mx = Some NInf
         \<or> (\<exists>M. mx = Some (Fin M) \<and> (\<forall>gl\<in>set (finite_values ?fs). snd gl \<le> M))"
    by (auto simp add: mx_def spec_maxLL_ge)
  have "ped_lik_sums (ped_param m) mx (Fin 0, Fin 0) = Inl TypeError"
    by (rule ped_lik_sums_None [OF ne vals ex shape])
  then show ?thesis
    by (simp add: ped_likelihood_ratio_def final_logliks_values [OF ne] pm err_bind_def)
qed









text \<open>The 36 joint genotypes, and the tracks of a new pedigree marker.\<close>

lemma trio_gt_distinct: "distinct trio_gt"
  by (simp add: trio_gt_def genotypes_def)


lemma dict_set_new:
  assumes "k \<notin> fst ` set d"
  shows "dict_set d k v = d @ [(k, v)]"
  using assms by (induction d) auto

lemma fold_dict_set_distinct:
  assumes "distinct ks" and "set ks \<inter> fst ` set d = {}"
  shows "fold (\<lambda>k prm. dict_set prm k v) ks d = d @ map (\<lambda>k. (k, v)) ks"
  using assms
proof (induction ks arbitrary: d)
  case Nil
  then show ?case by simp
next
  case (Cons k ks)
  from Cons.prems have k: "k \<notin> fst ` set d" by auto
  from Cons.prems have "set ks \<inter> fst ` set (d @ [(k, v)]) = {}" by auto
  with Cons.IH [of "d @ [(k, v)]"] Cons.prems show ?case
    by (simp add: dict_set_new [OF k])
qed

lemma PedMarker_init_tracks:
  assumes "PedMarker_init cs slope intercept fam = Inr m"
  shows "final_values (ped_param m) = map (\<lambda>gt. (gt, None)) trio_gt"
    and "\<forall>track\<in>set (ped_param m). snd track \<noteq> []"
  using assms
  by (auto simp add: PedMarker_init_def err_bind_def fold_dict_set_distinct [OF trio_gt_distinct]
      final_values_def comp_def split: sum.splits prod.splits)

text \<open>A new pedigree marker has no log-likelihood yet: the ratio raises a TypeError.\<close>

lemma PedMarker_init_ratio:
  assumes "PedMarker_init cs slope intercept fam = Inr m"
  shows "ped_likelihood_ratio m = Inl TypeError"
proof -
  note fv = PedMarker_init_tracks(1) [OF assms]
  note ne = PedMarker_init_tracks(2) [OF assms]
  have "\<lparr>gt_father = (2, 0, 0), gt_mother = (2, 0, 0)\<rparr> \<in> set trio_gt"
    by (simp add: trio_gt_def genotypes_def)
  then have "(\<lparr>gt_father = (2, 0, 0), gt_mother = (2, 0, 0)\<rparr>, None)
      \<in> set (final_values (ped_param m))"
    by (simp add: fv image_iff)
  then have ex: "\<exists>gv\<in>set (final_values (ped_param m)). snd gv = None"
    by (rule rev_bexI) simp
  have vals: "\<forall>gv\<in>set (final_values (ped_param m)). is_number (snd gv) \<or> snd gv = None"
    by (auto simp add: fv)
  show ?thesis by (rule ped_likelihood_ratio_None [OF ne vals ex])
qed







lemma finite_values_keys:
  "\<exists>gv\<in>set fs. is_null_gt (fst gv) \<and> (\<exists>r. snd gv = Some (Fin r))
     \<Longrightarrow> \<exists>gl\<in>set (finite_values fs). is_null_gt (fst gl)"
  by (force simp add: finite_values_def)












section \<open>Properties of the pedigree file parser\<close>

lemma py_max_key_from_const:
  assumes "\<forall>x\<in>set xs. f x = f m"
  shows "py_max_key_from f m xs = m"
  using assms by (induction xs) auto

lemma py_max_key_const:
  assumes "\<forall>x\<in>set xs. f x = c" and "xs \<noteq> []"
  shows "py_max_key f xs = Inr (hd xs)"
  using assms by (cases xs) (auto simp add: py_max_key_from_const)

lemma dict_append_keys:
  "fst ` set (dict_append d k v) = insert k (fst ` set d)"
  by (induction d) force+

lemma ped_offspring_keys:
  assumes "ped_offspring samples lines d = Inr offspring"
    and "\<forall>k\<in>fst ` set d. length k = 2"
  shows "\<forall>k\<in>fst ` set offspring. length k = 2"
  using assms
proof (induction lines arbitrary: d)
  case Nil
  then show ?case by simp
next
  case (Cons line lines)
  from Cons.prems(1) have len: "length line = 6" by (auto split: if_splits)
  show ?case
  proof (cases "line ! 1 \<in> set samples")
    case True
    with Cons.prems(1) len
    have "ped_offspring samples lines (dict_append d [line ! 2, line ! 3] (line ! 1))
        = Inr offspring"
      by (simp add: Let_def)
    moreover have "\<forall>k\<in>fst ` set (dict_append d [line ! 2, line ! 3] (line ! 1)). length k = 2"
      using Cons.prems(2) by (simp add: dict_append_keys)
    ultimately show ?thesis by (rule Cons.IH)
  next
    case False
    with Cons.prems(1) len have "ped_offspring samples lines d = Inr offspring"
      by (simp add: Let_def)
    then show ?thesis using Cons.prems(2) by (rule Cons.IH)
  qed
qed

text \<open>
  Every key of \<open>offspring\<close> has length 2, so the key function of the \<open>max\<close> is constant and
  \<open>parse_ped\<close> returns the pair that the iteration over the dictionary gives first,
  whatever the numbers of children.
\<close>

lemma parse_ped_first_key:
  assumes "parse_ped iter_order samples lines = Inr fam"
    and "\<And>ks. set (iter_order ks) = set ks"
  shows "\<exists>offspring. ped_offspring samples lines [] = Inr offspring
     \<and> iter_order (map fst offspring) \<noteq> []
     \<and> hd (iter_order (map fst offspring)) = [father fam, mother fam]
     \<and> map_of offspring [father fam, mother fam] = Some (children fam)"
proof -
  from assms(1) obtain offspring where off: "ped_offspring samples lines [] = Inr offspring"
    by (auto simp add: parse_ped_def err_bind_def split: sum.splits)
  let ?ks = "iter_order (map fst offspring)"
  have two: "\<forall>k\<in>set ?ks. length k = 2"
    using ped_offspring_keys [OF off] assms(2) [of "map fst offspring"] by simp
  from assms(1) off have ne: "?ks \<noteq> []"
    by (auto simp add: parse_ped_def err_bind_def)
  from py_max_key_const [OF two ne]
  have mk: "py_max_key length ?ks = Inr (hd ?ks)" .
  from assms(1) have "hd ?ks = [father fam, mother fam]
     \<and> map_of offspring [father fam, mother fam] = Some (children fam)"
    by (auto simp add: parse_ped_def err_bind_def off mk split: list.splits option.splits)
  with off ne show ?thesis by blast
qed

text \<open>
  C2 (the code at a failing input): the pedigree file has the pair \<open>(dadA, momA)\<close> with one
  child and the pair \<open>(dadB, momB)\<close> with two, all three children in the sample set;
  \<open>parse_ped\<close> returns the family of \<open>(dadA, momA)\<close>, which is not the one with the most
  children.
\<close>

theorem C2_parse_ped_picks_first_pair:
  "ped_offspring [''kid1'', ''kid2'', ''kid3'']
     [[''fam1'', ''kid1'', ''dadA'', ''momA'', ''1'', ''0''],
      [''fam2'', ''kid2'', ''dadB'', ''momB'', ''1'', ''0''],
      [''fam2'', ''kid3'', ''dadB'', ''momB'', ''2'', ''0'']] []
   = Inr [([''dadA'', ''momA''], [''kid1'']), ([''dadB'', ''momB''], [''kid2'', ''kid3''])]
   \<and> parse_ped (\<lambda>ks. ks) [''kid1'', ''kid2'', ''kid3'']
     [[''fam1'', ''kid1'', ''dadA'', ''momA'', ''1'', ''0''],
      [''fam2'', ''kid2'', ''dadB'', ''momB'', ''1'', ''0''],
      [''fam2'', ''kid3'', ''dadB'', ''momB'', ''2'', ''0'']]
   = Inr \<lparr>father = ''dadA'', mother = ''momA'', children = [''kid1'']\<rparr>"
  by (simp add: parse_ped_def err_bind_def Let_def)

end
